theory Spec2Isabelle
  imports Main
begin

section \<open>Python values, exceptions and HTTP traffic\<close>

text \<open>
  The SDK (\<^verbatim>\<open>sdk/python/src/amp_email\<close>) moves JSON-like Python values between typed
  model objects and the \<^verbatim>\<open>requests\<close> session. A value is \<^verbatim>\<open>None\<close>, a bool, an int,
  a float, a str, a list or a dict with string keys. A dict is an association list in
  insertion order, read with \<open>map_of\<close>. The float type is the parameter \<open>'f\<close>: the
  SDK does no arithmetic on floats, it only carries them, and two floats are compared
  with HOL equality (so the IEEE value NaN, which Python compares unequal to itself, is
  not represented). A member of one of the three \<^verbatim>\<open>(str, Enum)\<close> classes is a str
  instance equal to its value, and appears among the values as that string.
\<close>

datatype 'f pyval =
    VNone
  | VBool bool
  | VInt int
  | VFloat 'f
  | VStr string
  | VList "'f pyval list"
  | VDict "(string \<times> 'f pyval) list"

type_synonym 'f pydict = "(string \<times> 'f pyval) list"

text \<open>
  One entry of a pydantic validation error: the location of the offending input (keys
  and list indices, outermost first) and pydantic's error type, such as
  \<^verbatim>\<open>missing\<close>, \<^verbatim>\<open>string_type\<close> or \<^verbatim>\<open>enum\<close>.
\<close>

datatype loc_item = Key string | Idx nat

type_synonym error_detail = "loc_item list \<times> string"

text \<open>
  Every exception the SDK can let escape. The first four are the classes of
  \<^verbatim>\<open>exceptions.py\<close>; \<open>AMPEmailError\<close> carries its argument as a value because
  \<^verbatim>\<open>_request\<close> passes whatever \<^verbatim>\<open>error_data.get("message", ...)\<close> returns.
  \<open>ValueError\<close>, \<open>TypeError\<close> and \<open>AttributeError\<close> are Python's built-ins, and
  \<open>PydanticValidationError\<close> is \<^verbatim>\<open>pydantic.ValidationError\<close>, raised by the model
  constructors.
\<close>

datatype 'f error =
    AMPEmailError "'f pyval"
  | AuthenticationError string
  | RateLimitError string
  | ValidationError string
  | ValueError string
  | TypeError
  | AttributeError
  | PydanticValidationError "error_detail list"

text \<open>
  \<^verbatim>\<open>isinstance(e, AMPEmailError)\<close>, from the class hierarchy of \<^verbatim>\<open>exceptions.py\<close>:
  the base class and its three subclasses.
\<close>

fun isinstance_AMPEmailError :: "'f error \<Rightarrow> bool" where
  "isinstance_AMPEmailError (AMPEmailError _) = True"
| "isinstance_AMPEmailError (AuthenticationError _) = True"
| "isinstance_AMPEmailError (RateLimitError _) = True"
| "isinstance_AMPEmailError (ValidationError _) = True"
| "isinstance_AMPEmailError _ = False"

text \<open>
  A request as \<^verbatim>\<open>session.request(method, url, timeout=..., json=...)\<close> issues it, with
  the headers the constructor puts on the session, and a response as \<^verbatim>\<open>_request\<close> reads it:
  \<^verbatim>\<open>status_code\<close>, the raw \<^verbatim>\<open>content\<close>, and the outcome of \<^verbatim>\<open>response.json()\<close>,
  which is the decoded value or \<^verbatim>\<open>requests.exceptions.JSONDecodeError\<close> with its
  description (\<open>Inl\<close>). The transport answers a request with a response, or fails with
  a \<^verbatim>\<open>requests.exceptions.RequestException\<close> and its description (\<open>Inl\<close>).
\<close>

record 'f http_request =
  req_method :: string
  req_url :: string
  req_timeout :: int
  req_json :: "'f pyval option"
  req_headers :: "(string \<times> string) list"

record 'f http_response =
  status_code :: int
  content :: string
  json_body :: "string + 'f pyval"

type_synonym 'f transport = "'f http_request \<Rightarrow> string + 'f http_response"

text \<open>
  The client object. The \<^verbatim>\<open>requests.Session\<close> it owns is the only thing an operation
  can change: \<open>requests_sent\<close> records, in order, every request issued through the
  session, so that the number of network calls of an operation can be read off the
  state.
\<close>

record 'f Session =
  headers :: "(string \<times> string) list"
  requests_sent :: "'f http_request list"

record 'f AMPEmailClient =
  api_key :: string
  base_url :: string
  timeout :: int
  session :: "'f Session"

text \<open>\<^verbatim>\<open>s.rstrip("/")\<close>: the string without its trailing slashes.\<close>

definition rstrip_slash :: "string \<Rightarrow> string" where
  "rstrip_slash s = rev (dropWhile (\<lambda>c. c = CHR ''/'') (rev s))"

text \<open>\<^verbatim>\<open>AMPEmailClient.__init__\<close>; the defaults of its keyword arguments follow.\<close>

definition AMPEmailClient_init :: "string \<Rightarrow> string \<Rightarrow> int \<Rightarrow> 'f AMPEmailClient" where
  "AMPEmailClient_init key base tmo =
     \<lparr> api_key = key,
       base_url = rstrip_slash base,
       timeout = tmo,
       session = \<lparr> headers =
                     [(''Authorization'', ''Bearer '' @ key),
                      (''Content-Type'', ''application/json''),
                      (''User-Agent'', ''amp-email-python-sdk/1.0.0'')],
                   requests_sent = [] \<rparr> \<rparr>"

definition default_base_url :: string where
  "default_base_url = ''https://api.amp-platform.com''"

definition default_timeout :: int where
  "default_timeout = 30"

text \<open>\<^verbatim>\<open>str(n)\<close> for an int, as the f-string of the error message formats it.\<close>

definition digit_char :: "nat \<Rightarrow> char" where
  "digit_char d = ''0123456789'' ! d"

fun str_nat :: "nat \<Rightarrow> string" where
  "str_nat n =
     (if n < 10 then [digit_char n]
      else str_nat (n div 10) @ [digit_char (n mod 10)])"

definition str_int :: "int \<Rightarrow> string" where
  "str_int i = (if i < 0 then CHR ''-'' # str_nat (nat (- i)) else str_nat (nat i))"

section \<open>The data model\<close>

subsection \<open>Field validation\<close>

text \<open>
  The classes of \<^verbatim>\<open>models.py\<close> derive from \<^verbatim>\<open>pydantic.BaseModel\<close>
  (\<^verbatim>\<open>setup.py\<close> requires \<^verbatim>\<open>pydantic>=2.0.0\<close>) and set no model configuration. The
  constructor \<^verbatim>\<open>Model(**kwargs)\<close> therefore reads each field under its alias when
  \<^verbatim>\<open>Field(..., alias=...)\<close> declares one and under its attribute name otherwise,
  ignores every other key, takes the declared default for a key that is absent, and
  reports all the fields that fail together, in declaration order. A validator returns
  the validated value or the error entries, located relative to its input.

  An input of the field's own type is validated here. For an int, bool or float field
  pydantic also converts some inputs of other types (its lax mode: the string
  \<^verbatim>\<open>"3"\<close> for an int, an int for a float); that conversion table belongs to the
  library and is the parameter \<open>L\<close>, asked only about inputs of another type.
\<close>

record 'f lax_mode =
  lax_int :: "'f pyval \<Rightarrow> int option"
  lax_bool :: "'f pyval \<Rightarrow> bool option"
  lax_float :: "'f pyval \<Rightarrow> 'f option"

type_synonym ('f, 'a) validator = "'f pyval \<Rightarrow> error_detail list + 'a"

definition validate_str :: "('f, string) validator" where
  "validate_str v = (case v of VStr s \<Rightarrow> Inr s | _ \<Rightarrow> Inl [([], ''string_type'')])"

definition validate_int :: "'f lax_mode \<Rightarrow> ('f, int) validator" where
  "validate_int L v =
     (case v of
        VInt i \<Rightarrow> Inr i
      | _ \<Rightarrow> (case lax_int L v of Some i \<Rightarrow> Inr i | None \<Rightarrow> Inl [([], ''int_type'')]))"

definition validate_bool :: "'f lax_mode \<Rightarrow> ('f, bool) validator" where
  "validate_bool L v =
     (case v of
        VBool b \<Rightarrow> Inr b
      | _ \<Rightarrow> (case lax_bool L v of Some b \<Rightarrow> Inr b | None \<Rightarrow> Inl [([], ''bool_type'')]))"

definition validate_float :: "'f lax_mode \<Rightarrow> ('f, 'f) validator" where
  "validate_float L v =
     (case v of
        VFloat x \<Rightarrow> Inr x
      | _ \<Rightarrow> (case lax_float L v of Some x \<Rightarrow> Inr x | None \<Rightarrow> Inl [([], ''float_type'')]))"

text \<open>\<^verbatim>\<open>Dict[str, Any]\<close>: any dict, its values untouched.\<close>

definition validate_dict_any :: "('f, 'f pydict) validator" where
  "validate_dict_any v = (case v of VDict kvs \<Rightarrow> Inr kvs | _ \<Rightarrow> Inl [([], ''dict_type'')])"

text \<open>\<^verbatim>\<open>Optional[T]\<close>: \<^verbatim>\<open>None\<close>, or a \<open>T\<close>.\<close>

definition validate_optional :: "('f, 'a) validator \<Rightarrow> ('f, 'a option) validator" where
  "validate_optional f v =
     (case v of VNone \<Rightarrow> Inr None
      | _ \<Rightarrow> (case f v of Inl es \<Rightarrow> Inl es | Inr a \<Rightarrow> Inr (Some a)))"

text \<open>Error entries found below the location item \<open>l\<close>.\<close>

definition under :: "loc_item \<Rightarrow> error_detail list + 'a \<Rightarrow> error_detail list + 'a" where
  "under l r = (case r of Inl es \<Rightarrow> Inl (map (\<lambda>(loc, t). (l # loc, t)) es) | Inr a \<Rightarrow> Inr a)"

text \<open>
  The items of a list or the values of a dict, validated one by one: all the values when
  every item passes, all the error entries otherwise.
\<close>

fun collect :: "(error_detail list + 'a) list \<Rightarrow> error_detail list + 'a list" where
  "collect [] = Inr []"
| "collect (r # rs) =
     (case (r, collect rs) of
        (Inr a, Inr as) \<Rightarrow> Inr (a # as)
      | (Inl es, Inr _) \<Rightarrow> Inl es
      | (Inr _, Inl es') \<Rightarrow> Inl es'
      | (Inl es, Inl es') \<Rightarrow> Inl (es @ es'))"

text \<open>\<^verbatim>\<open>List[T]\<close>: a list whose items are each a \<open>T\<close>, located by index.\<close>

definition validate_list :: "('f, 'a) validator \<Rightarrow> ('f, 'a list) validator" where
  "validate_list f v =
     (case v of
        VList xs \<Rightarrow> collect (map (\<lambda>(i, x). under (Idx i) (f x)) (zip [0..<length xs] xs))
      | _ \<Rightarrow> Inl [([], ''list_type'')])"

text \<open>\<^verbatim>\<open>Dict[str, str]\<close>: a dict whose values are each a str, located by key.\<close>

definition validate_dict_str :: "('f, (string \<times> string) list) validator" where
  "validate_dict_str v =
     (case v of
        VDict kvs \<Rightarrow>
          collect (map (\<lambda>(k, x). under (Key k)
                          (case validate_str x of Inl es \<Rightarrow> Inl es | Inr s \<Rightarrow> Inr (k, s))) kvs)
      | _ \<Rightarrow> Inl [([], ''dict_type'')])"

text \<open>
  A field read from the keyword arguments under the key \<open>k\<close>: a required field
  (\<^verbatim>\<open>Field(...)\<close>, or an annotation with no default) is an error entry of type
  \<^verbatim>\<open>missing\<close> when the key is absent; a field with a default takes the default.
\<close>

definition field_required :: "'f pydict \<Rightarrow> string \<Rightarrow> ('f, 'a) validator \<Rightarrow> error_detail list + 'a" where
  "field_required kw k f =
     (case map_of kw k of
        None \<Rightarrow> Inl [([Key k], ''missing'')]
      | Some v \<Rightarrow> under (Key k) (f v))"

definition field_default :: "'f pydict \<Rightarrow> string \<Rightarrow> 'a \<Rightarrow> ('f, 'a) validator \<Rightarrow> error_detail list + 'a" where
  "field_default kw k d f =
     (case map_of kw k of
        None \<Rightarrow> Inr d
      | Some v \<Rightarrow> under (Key k) (f v))"

text \<open>The error entries of a field's outcome: none when it passed.\<close>

fun errs :: "error_detail list + 'a \<Rightarrow> error_detail list" where
  "errs (Inl es) = es"
| "errs (Inr _) = []"

text \<open>An optional value in a serialized mapping: \<^verbatim>\<open>None\<close> stays \<^verbatim>\<open>None\<close>.\<close>

definition opt_val :: "('a \<Rightarrow> 'f pyval) \<Rightarrow> 'a option \<Rightarrow> 'f pyval" where
  "opt_val f x = (case x of None \<Rightarrow> VNone | Some a \<Rightarrow> f a)"

text \<open>
  The fields of a model, validated in declaration order and put together: the object
  when every field passed, the error entries of all the fields otherwise.
\<close>

definition ap :: "error_detail list + ('a \<Rightarrow> 'b) \<Rightarrow> error_detail list + 'a \<Rightarrow> error_detail list + 'b" where
  "ap rf ra =
     (case rf of
        Inr f \<Rightarrow> (case ra of Inr a \<Rightarrow> Inr (f a) | Inl es \<Rightarrow> Inl es)
      | Inl es \<Rightarrow> Inl (es @ errs ra))"

text \<open>The constructor raises \<^verbatim>\<open>pydantic.ValidationError\<close> with the entries.\<close>

definition raise_validation :: "error_detail list + 'a \<Rightarrow> 'f error + 'a" where
  "raise_validation r =
     (case r of Inl es \<Rightarrow> Inl (PydanticValidationError es) | Inr a \<Rightarrow> Inr a)"

subsection \<open>Enumerations\<close>

datatype CampaignType = ABANDONED_CART | PROMOTIONAL | PRODUCT_LAUNCH | PRICE_DROP | BACK_IN_STOCK

datatype CampaignGoal = ACQUISITION | RETENTION | ENGAGEMENT | CONVERSION

datatype Urgency = LOW | MEDIUM | HIGH

fun CampaignType_value :: "CampaignType \<Rightarrow> string" where
  "CampaignType_value ABANDONED_CART = ''abandoned_cart''"
| "CampaignType_value PROMOTIONAL = ''promotional''"
| "CampaignType_value PRODUCT_LAUNCH = ''product_launch''"
| "CampaignType_value PRICE_DROP = ''price_drop''"
| "CampaignType_value BACK_IN_STOCK = ''back_in_stock''"

fun CampaignGoal_value :: "CampaignGoal \<Rightarrow> string" where
  "CampaignGoal_value ACQUISITION = ''acquisition''"
| "CampaignGoal_value RETENTION = ''retention''"
| "CampaignGoal_value ENGAGEMENT = ''engagement''"
| "CampaignGoal_value CONVERSION = ''conversion''"

fun Urgency_value :: "Urgency \<Rightarrow> string" where
  "Urgency_value LOW = ''low''"
| "Urgency_value MEDIUM = ''medium''"
| "Urgency_value HIGH = ''high''"

text \<open>
  An enumerated field accepts a member of its class, that is the string of one of the
  declared values, and nothing else; the error type is \<^verbatim>\<open>enum\<close>.
\<close>

definition validate_enum :: "'e list \<Rightarrow> ('e \<Rightarrow> string) \<Rightarrow> ('f, 'e) validator" where
  "validate_enum members val v =
     (case v of
        VStr s \<Rightarrow> (case find (\<lambda>m. val m = s) members of
                     Some m \<Rightarrow> Inr m
                   | None \<Rightarrow> Inl [([], ''enum'')])
      | _ \<Rightarrow> Inl [([], ''enum'')])"

definition CampaignType_members :: "CampaignType list" where
  "CampaignType_members = [ABANDONED_CART, PROMOTIONAL, PRODUCT_LAUNCH, PRICE_DROP, BACK_IN_STOCK]"

definition CampaignGoal_members :: "CampaignGoal list" where
  "CampaignGoal_members = [ACQUISITION, RETENTION, ENGAGEMENT, CONVERSION]"

definition Urgency_members :: "Urgency list" where
  "Urgency_members = [LOW, MEDIUM, HIGH]"

subsection \<open>Request-side models\<close>

text \<open>
  Each class is a record of its fields, a constructor \<open>_init\<close> from keyword arguments,
  and \<open>_dict\<close> for \<^verbatim>\<open>.dict()\<close>. The SDK calls \<^verbatim>\<open>.dict()\<close> with no argument, so
  \<^verbatim>\<open>by_alias\<close>, \<^verbatim>\<open>exclude_unset\<close> and \<^verbatim>\<open>exclude_none\<close> keep their default
  \<^verbatim>\<open>False\<close>: the mapping has one entry per declared field, in declaration order, under
  the attribute name. Two objects of a class are equal when their fields are. The fields
  \<^verbatim>\<open>id\<close> and \<^verbatim>\<open>url\<close> of \<^verbatim>\<open>Product\<close> are \<open>id_Product\<close> and \<open>url_Product\<close> here.
\<close>

record 'f Product =
  id_Product :: "string option"
  name :: "string option"
  price :: "'f option"
  currency :: "string option"
  image :: "string option"
  url_Product :: "string option"
  description :: "string option"
  brand :: "string option"

definition Product_init :: "'f lax_mode \<Rightarrow> 'f pydict \<Rightarrow> 'f error + 'f Product" where
  "Product_init L kw = raise_validation
     (ap (ap (ap (ap (ap (ap (ap (ap
        (Inr (\<lambda>a b c d e f g h.
           \<lparr> id_Product = a, name = b, price = c, currency = d, image = e,
             url_Product = f, description = g, brand = h \<rparr>))
        (field_default kw ''id'' None (validate_optional validate_str)))
        (field_default kw ''name'' None (validate_optional validate_str)))
        (field_default kw ''price'' None (validate_optional (validate_float L))))
        (field_default kw ''currency'' (Some ''USD'') (validate_optional validate_str)))
        (field_default kw ''image'' None (validate_optional validate_str)))
        (field_default kw ''url'' None (validate_optional validate_str)))
        (field_default kw ''description'' None (validate_optional validate_str)))
        (field_default kw ''brand'' None (validate_optional validate_str)))"

definition Product_dict :: "'f Product \<Rightarrow> 'f pydict" where
  "Product_dict p =
     [(''id'', opt_val VStr (id_Product p)),
      (''name'', opt_val VStr (name p)),
      (''price'', opt_val VFloat (price p)),
      (''currency'', opt_val VStr (currency p)),
      (''image'', opt_val VStr (image p)),
      (''url'', opt_val VStr (url_Product p)),
      (''description'', opt_val VStr (description p)),
      (''brand'', opt_val VStr (brand p))]"

record 'f CampaignContext =
  type :: CampaignType
  goal :: CampaignGoal
  urgency :: "Urgency option"
  discount :: "'f option"

definition CampaignContext_init :: "'f lax_mode \<Rightarrow> 'f pydict \<Rightarrow> 'f error + 'f CampaignContext" where
  "CampaignContext_init L kw = raise_validation
     (ap (ap (ap (ap
        (Inr (\<lambda>a b c d. \<lparr> type = a, goal = b, urgency = c, discount = d \<rparr>))
        (field_required kw ''type'' (validate_enum CampaignType_members CampaignType_value)))
        (field_required kw ''goal'' (validate_enum CampaignGoal_members CampaignGoal_value)))
        (field_default kw ''urgency'' None
           (validate_optional (validate_enum Urgency_members Urgency_value))))
        (field_default kw ''discount'' None (validate_optional (validate_float L))))"

definition CampaignContext_dict :: "'f CampaignContext \<Rightarrow> 'f pydict" where
  "CampaignContext_dict c =
     [(''type'', VStr (CampaignType_value (type c))),
      (''goal'', VStr (CampaignGoal_value (goal c))),
      (''urgency'', opt_val (\<lambda>u. VStr (Urgency_value u)) (urgency c)),
      (''discount'', opt_val VFloat (discount c))]"

record 'f UserContext =
  first_name :: "string option"
  last_name :: "string option"
  email :: "string option"
  custom_fields :: "'f pydict option"

definition UserContext_init :: "'f pydict \<Rightarrow> 'f error + 'f UserContext" where
  "UserContext_init kw = raise_validation
     (ap (ap (ap (ap
        (Inr (\<lambda>a b c d. \<lparr> first_name = a, last_name = b, email = c, custom_fields = d \<rparr>))
        (field_default kw ''firstName'' None (validate_optional validate_str)))
        (field_default kw ''lastName'' None (validate_optional validate_str)))
        (field_default kw ''email'' None (validate_optional validate_str)))
        (field_default kw ''customFields'' None (validate_optional validate_dict_any)))"

definition UserContext_dict :: "'f UserContext \<Rightarrow> 'f pydict" where
  "UserContext_dict u =
     [(''first_name'', opt_val VStr (first_name u)),
      (''last_name'', opt_val VStr (last_name u)),
      (''email'', opt_val VStr (email u)),
      (''custom_fields'', opt_val VDict (custom_fields u))]"

record BrandContext =
  voice :: "string option"
  colors :: "string list option"
  logo :: "string option"
  company_name :: "string option"

definition BrandContext_init :: "'f pydict \<Rightarrow> 'f error + BrandContext" where
  "BrandContext_init kw = raise_validation
     (ap (ap (ap (ap
        (Inr (\<lambda>a b c d. \<lparr> voice = a, colors = b, logo = c, company_name = d \<rparr>))
        (field_default kw ''voice'' None (validate_optional validate_str)))
        (field_default kw ''colors'' None (validate_optional (validate_list validate_str))))
        (field_default kw ''logo'' None (validate_optional validate_str)))
        (field_default kw ''companyName'' None (validate_optional validate_str)))"

definition BrandContext_dict :: "BrandContext \<Rightarrow> 'f pydict" where
  "BrandContext_dict b =
     [(''voice'', opt_val VStr (voice b)),
      (''colors'', opt_val (\<lambda>cs. VList (map VStr cs)) (colors b)),
      (''logo'', opt_val VStr (logo b)),
      (''company_name'', opt_val VStr (company_name b))]"

record GenerationOptions =
  variations :: int
  preserve_merge_tags :: bool

definition GenerationOptions_init :: "'f lax_mode \<Rightarrow> 'f pydict \<Rightarrow> 'f error + GenerationOptions" where
  "GenerationOptions_init L kw = raise_validation
     (ap (ap
        (Inr (\<lambda>a b. \<lparr> variations = a, preserve_merge_tags = b \<rparr>))
        (field_default kw ''variations'' 3 (validate_int L)))
        (field_default kw ''preserveMergeTags'' True (validate_bool L)))"

definition GenerationOptions_dict :: "GenerationOptions \<Rightarrow> 'f pydict" where
  "GenerationOptions_dict g =
     [(''variations'', VInt (variations g)),
      (''preserve_merge_tags'', VBool (preserve_merge_tags g))]"

subsection \<open>Response-side models\<close>

text \<open>
  Every field of \<^verbatim>\<open>Template\<close> and \<^verbatim>\<open>Campaign\<close> is required. The fields \<^verbatim>\<open>id\<close> and
  \<^verbatim>\<open>content\<close> of \<^verbatim>\<open>Template\<close> are \<open>id_Template\<close> and \<open>content_Template\<close> here.
  A template inside a campaign is validated from a dict, its errors located below the
  list index.
\<close>

record 'f Template =
  id_Template :: string
  variation_name :: string
  amp_url :: string
  fallback_url :: string
  content_Template :: "'f pydict"
  merge_tags :: "string list"

definition Template_fields :: "'f pydict \<Rightarrow> error_detail list + 'f Template" where
  "Template_fields kw =
     ap (ap (ap (ap (ap (ap
        (Inr (\<lambda>a b c d e f.
           \<lparr> id_Template = a, variation_name = b, amp_url = c, fallback_url = d,
             content_Template = e, merge_tags = f \<rparr>))
        (field_required kw ''id'' validate_str))
        (field_required kw ''variationName'' validate_str))
        (field_required kw ''ampUrl'' validate_str))
        (field_required kw ''fallbackUrl'' validate_str))
        (field_required kw ''content'' validate_dict_any))
        (field_required kw ''mergeTags'' (validate_list validate_str))"

definition Template_init :: "'f pydict \<Rightarrow> 'f error + 'f Template" where
  "Template_init kw = raise_validation (Template_fields kw)"

definition validate_Template :: "('f, 'f Template) validator" where
  "validate_Template v =
     (case v of VDict kw \<Rightarrow> Template_fields kw | _ \<Rightarrow> Inl [([], ''model_type'')])"

record 'f Campaign =
  campaign_id :: string
  templates :: "'f Template list"
  preview_urls :: "(string \<times> string) list list"
  cost :: "'f pydict"
  metadata :: "'f pydict"

definition Campaign_init :: "'f pydict \<Rightarrow> 'f error + 'f Campaign" where
  "Campaign_init kw = raise_validation
     (ap (ap (ap (ap (ap
        (Inr (\<lambda>a b c d e.
           \<lparr> campaign_id = a, templates = b, preview_urls = c, cost = d, metadata = e \<rparr>))
        (field_required kw ''campaignId'' validate_str))
        (field_required kw ''templates'' (validate_list validate_Template)))
        (field_required kw ''previewUrls'' (validate_list validate_dict_str)))
        (field_required kw ''cost'' validate_dict_any))
        (field_required kw ''metadata'' validate_dict_any))"

text \<open>The keys the two constructors read: the alias, or the attribute name.\<close>

definition Template_keys :: "string list" where
  "Template_keys = [''id'', ''variationName'', ''ampUrl'', ''fallbackUrl'', ''content'', ''mergeTags'']"

definition Campaign_keys :: "string list" where
  "Campaign_keys = [''campaignId'', ''templates'', ''previewUrls'', ''cost'', ''metadata'']"

section \<open>The API client\<close>

text \<open>
  \<^verbatim>\<open>AMPEmailClient._request\<close>, named \<open>request\<close> here. It issues one request through the
  session and classifies the outcome; \<open>classify\<close> is the part of its \<^verbatim>\<open>try\<close> block that
  follows the arrival of the response. The \<^verbatim>\<open>except\<close> clause catches
  \<^verbatim>\<open>requests.exceptions.RequestException\<close>: a failure of the transport, and also
  the \<^verbatim>\<open>JSONDecodeError\<close> of \<^verbatim>\<open>response.json()\<close>, which \<^verbatim>\<open>requests\<close> (2.28 and later,
  as \<^verbatim>\<open>setup.py\<close> requires) derives from it. The errors raised inside the \<^verbatim>\<open>try\<close>
  block are not of that class and pass through, as does the \<^verbatim>\<open>AttributeError\<close> of
  \<^verbatim>\<open>error_data.get\<close> when the error body is JSON but not an object.
\<close>

definition request_failed :: "string \<Rightarrow> 'f error" where
  "request_failed e = AMPEmailError (VStr (''Request failed: '' @ e))"

definition classify :: "'f http_response \<Rightarrow> 'f error + 'f pyval" where
  "classify response =
     (if status_code response = 401 then Inl (AuthenticationError ''Invalid API key'')
      else if status_code response = 429 then Inl (RateLimitError ''Rate limit exceeded'')
      else if status_code response \<ge> 400 then
        (case (if content response \<noteq> [] then json_body response else Inr (VDict [])) of
           Inl e \<Rightarrow> Inl (request_failed e)
         | Inr (VDict error_data) \<Rightarrow>
             Inl (AMPEmailError
               (case map_of error_data ''message'' of
                  Some m \<Rightarrow> m
                | None \<Rightarrow> VStr (''API error: '' @ str_int (status_code response))))
         | Inr _ \<Rightarrow> Inl AttributeError)
      else
        (case json_body response of
           Inl e \<Rightarrow> Inl (request_failed e)
         | Inr v \<Rightarrow> Inr v))"

definition request ::
  "'f transport \<Rightarrow> 'f AMPEmailClient \<Rightarrow> string \<Rightarrow> string \<Rightarrow> 'f pyval option
     \<Rightarrow> ('f error + 'f pyval) \<times> 'f AMPEmailClient" where
  "request tr self meth path js =
     (let url = base_url self @ path;
          req = \<lparr> req_method = meth, req_url = url, req_timeout = timeout self,
                  req_json = js, req_headers = headers (session self) \<rparr>;
          self' = self \<lparr> session := (session self)
                    \<lparr> requests_sent := requests_sent (session self) @ [req] \<rparr> \<rparr>
      in case tr req of
           Inl e \<Rightarrow> (Inl (request_failed e), self')
         | Inr response \<Rightarrow> (classify response, self'))"

text \<open>
  Python's truth test of an optional list or string argument: \<^verbatim>\<open>None\<close> and the empty
  one are false. A model object is always true, so \<^verbatim>\<open>if campaign_context\<close> asks only
  whether the argument was given.
\<close>

definition truthy :: "'a list option \<Rightarrow> bool" where
  "truthy x = (case x of None \<Rightarrow> False | Some xs \<Rightarrow> xs \<noteq> [])"

text \<open>
  The body \<^verbatim>\<open>generate\<close> assembles: \<^verbatim>\<open>campaign_context\<close> first, then each further key
  whose argument is true (a list that is given and not empty, a model object that is
  given), in the order of the \<^verbatim>\<open>if\<close> statements.
\<close>

definition generate_payload ::
  "string list option \<Rightarrow> 'f Product list option \<Rightarrow> 'f CampaignContext option
     \<Rightarrow> 'f UserContext option \<Rightarrow> BrandContext option \<Rightarrow> GenerationOptions option \<Rightarrow> 'f pydict" where
  "generate_payload product_urls products campaign_context user_context brand_context options =
     [(''campaign_context'',
        (case campaign_context of Some c \<Rightarrow> VDict (CampaignContext_dict c) | None \<Rightarrow> VDict []))]
     @ (case product_urls of
          Some (u # us) \<Rightarrow> [(''product_urls'', VList (map VStr (u # us)))]
        | _ \<Rightarrow> [])
     @ (case products of
          Some (q # qs) \<Rightarrow> [(''products'', VList (map (\<lambda>p. VDict (Product_dict p)) (q # qs)))]
        | _ \<Rightarrow> [])
     @ (case user_context of Some u \<Rightarrow> [(''user_context'', VDict (UserContext_dict u))] | None \<Rightarrow> [])
     @ (case brand_context of Some b \<Rightarrow> [(''brand_context'', VDict (BrandContext_dict b))] | None \<Rightarrow> [])
     @ (case options of Some g \<Rightarrow> [(''options'', VDict (GenerationOptions_dict g))] | None \<Rightarrow> [])"

text \<open>
  \<^verbatim>\<open>AMPEmailClient.generate\<close>. \<^verbatim>\<open>Campaign(**response)\<close> needs a mapping: any other
  decoded value is a \<^verbatim>\<open>TypeError\<close>.
\<close>

definition generate ::
  "'f transport \<Rightarrow> 'f AMPEmailClient \<Rightarrow> string list option \<Rightarrow> 'f Product list option
     \<Rightarrow> 'f CampaignContext option \<Rightarrow> 'f UserContext option \<Rightarrow> BrandContext option
     \<Rightarrow> GenerationOptions option \<Rightarrow> ('f error + 'f Campaign) \<times> 'f AMPEmailClient" where
  "generate tr self product_urls products campaign_context user_context brand_context options =
     (if \<not> truthy product_urls \<and> \<not> truthy products
      then (Inl (ValueError ''Either product_urls or products must be provided''), self)
      else
        (case request tr self ''POST'' ''/api/v1/generate''
                (Some (VDict (generate_payload product_urls products campaign_context
                                user_context brand_context options))) of
           (Inl e, self') \<Rightarrow> (Inl e, self')
         | (Inr (VDict response), self') \<Rightarrow> (Campaign_init response, self')
         | (Inr _, self') \<Rightarrow> (Inl TypeError, self')))"

definition get_template ::
  "'f transport \<Rightarrow> 'f AMPEmailClient \<Rightarrow> string \<Rightarrow> ('f error + 'f pyval) \<times> 'f AMPEmailClient" where
  "get_template tr self template_id =
     request tr self ''GET'' (''/api/v1/templates/'' @ template_id) None"

definition personalize ::
  "'f transport \<Rightarrow> 'f AMPEmailClient \<Rightarrow> string \<Rightarrow> 'f pydict
     \<Rightarrow> ('f error + 'f pyval) \<times> 'f AMPEmailClient" where
  "personalize tr self template_id recipient_data =
     request tr self ''POST'' ''/api/v1/personalize''
       (Some (VDict [(''template_id'', VStr template_id),
                     (''recipient_data'', VDict recipient_data)]))"

text \<open>
  \<^verbatim>\<open>AMPEmailClient.create_batch_campaign\<close> and the body it assembles. The keyword
  arguments \<^verbatim>\<open>max_concurrent\<close> and \<^verbatim>\<open>chunk_size\<close> are \<open>None\<close> when the caller leaves them
  out, and then have the defaults of the signature.
\<close>

definition default_max_concurrent :: int where
  "default_max_concurrent = 10"

definition default_chunk_size :: int where
  "default_chunk_size = 100"

definition create_batch_campaign_payload ::
  "string \<Rightarrow> string list \<Rightarrow> 'f CampaignContext \<Rightarrow> int option \<Rightarrow> int option
     \<Rightarrow> string option \<Rightarrow> 'f pydict" where
  "create_batch_campaign_payload campaign_name product_urls campaign_context
       max_concurrent chunk_size webhook_url =
     [(''campaign_name'', VStr campaign_name),
      (''product_urls'', VList (map VStr product_urls)),
      (''campaign_context'', VDict (CampaignContext_dict campaign_context)),
      (''max_concurrent'',
         VInt (case max_concurrent of Some n \<Rightarrow> n | None \<Rightarrow> default_max_concurrent)),
      (''chunk_size'', VInt (case chunk_size of Some n \<Rightarrow> n | None \<Rightarrow> default_chunk_size))]
     @ (case webhook_url of
          Some (ch # chs) \<Rightarrow> [(''webhook_url'', VStr (ch # chs))]
        | _ \<Rightarrow> [])"

definition create_batch_campaign ::
  "'f transport \<Rightarrow> 'f AMPEmailClient \<Rightarrow> string \<Rightarrow> string list \<Rightarrow> 'f CampaignContext
     \<Rightarrow> int option \<Rightarrow> int option \<Rightarrow> string option
     \<Rightarrow> ('f error + 'f pyval) \<times> 'f AMPEmailClient" where
  "create_batch_campaign tr self campaign_name product_urls campaign_context
       max_concurrent chunk_size webhook_url =
     request tr self ''POST'' ''/api/v1/batch/campaign''
       (Some (VDict (create_batch_campaign_payload campaign_name product_urls campaign_context
                       max_concurrent chunk_size webhook_url)))"

definition get_campaign_analytics ::
  "'f transport \<Rightarrow> 'f AMPEmailClient \<Rightarrow> string \<Rightarrow> ('f error + 'f pyval) \<times> 'f AMPEmailClient" where
  "get_campaign_analytics tr self campaign_id' =
     request tr self ''GET'' (''/api/v1/analytics/campaign/'' @ campaign_id') None"

text \<open>The requests an operation issued: those the session recorded beyond its start.\<close>

definition issued :: "'f AMPEmailClient \<Rightarrow> 'f AMPEmailClient \<Rightarrow> 'f http_request list" where
  "issued before after =
     drop (length (requests_sent (session before))) (requests_sent (session after))"

text \<open>
  A call of one of the five public operations with its arguments, and its execution on a
  client. \<open>generate\<close> returns a \<open>Campaign\<close>, the other four the decoded JSON value.
\<close>

datatype 'f operation =
    Generate "string list option" "'f Product list option" "'f CampaignContext option"
      "'f UserContext option" "BrandContext option" "GenerationOptions option"
  | GetTemplate string
  | Personalize string "'f pydict"
  | CreateBatchCampaign string "string list" "'f CampaignContext" "int option" "int option"
      "string option"
  | GetCampaignAnalytics string

datatype 'f returned = ReturnedCampaign "'f Campaign" | ReturnedJson "'f pyval"

definition returning :: "('a \<Rightarrow> 'r) \<Rightarrow> ('e + 'a) \<times> 's \<Rightarrow> ('e + 'r) \<times> 's" where
  "returning f r = (case r of (Inl e, s) \<Rightarrow> (Inl e, s) | (Inr a, s) \<Rightarrow> (Inr (f a), s))"

fun perform ::
  "'f transport \<Rightarrow> 'f AMPEmailClient \<Rightarrow> 'f operation
     \<Rightarrow> ('f error + 'f returned) \<times> 'f AMPEmailClient" where
  "perform tr self (Generate pu ps cc uc bc go) =
     returning ReturnedCampaign (generate tr self pu ps cc uc bc go)"
| "perform tr self (GetTemplate tid) = returning ReturnedJson (get_template tr self tid)"
| "perform tr self (Personalize tid rd) = returning ReturnedJson (personalize tr self tid rd)"
| "perform tr self (CreateBatchCampaign nm us cc mc cs wh) =
     returning ReturnedJson (create_batch_campaign tr self nm us cc mc cs wh)"
| "perform tr self (GetCampaignAnalytics cid) =
     returning ReturnedJson (get_campaign_analytics tr self cid)"

text \<open>
  Whether a call reaches the transport: \<open>generate\<close> stops at its argument check when
  neither product list is true, every other call issues its request.
\<close>

fun reaches_transport :: "'f operation \<Rightarrow> bool" where
  "reaches_transport (Generate pu ps cc uc bc go) = (truthy pu \<or> truthy ps)"
| "reaches_transport _ = True"

text \<open>
  Fixtures for concrete runs: a transport that answers every request with the same
  response, and a conversion table that converts nothing.
\<close>

definition mock_transport :: "'f http_response \<Rightarrow> 'f transport" where
  "mock_transport response = (\<lambda>req. Inr response)"

definition no_lax :: "'f lax_mode" where
  "no_lax = \<lparr> lax_int = (\<lambda>v. None), lax_bool = (\<lambda>v. None), lax_float = (\<lambda>v. None) \<rparr>"

text \<open>A client built with the defaults of the constructor, nothing sent yet.\<close>

definition client0 :: "unit AMPEmailClient" where
  "client0 = AMPEmailClient_init ''sk-test'' default_base_url default_timeout"

section \<open>Properties of the client\<close>

subsection \<open>Trailing slashes and issued requests\<close>

lemma rstrip_slash_append_slashes:
  "rstrip_slash (s @ replicate n CHR ''/'') = rstrip_slash s"
  by (simp add: rstrip_slash_def dropWhile_append)

lemma dropWhile_not_hd: "dropWhile P xs \<noteq> x # ys \<or> \<not> P x"
  by (metis hd_dropWhile list.sel(1) list.distinct(1))

lemma rstrip_slash_no_trailing:
  "rstrip_slash s \<noteq> t @ ''/''"
proof
  assume h: "rstrip_slash s = t @ ''/''"
  then have "rev (rstrip_slash s) = CHR ''/'' # rev t" by simp
  then have "dropWhile (\<lambda>c. c = CHR ''/'') (rev s) = CHR ''/'' # rev t"
    by (simp add: rstrip_slash_def)
  then show False
    using dropWhile_not_hd [of "\<lambda>c. c = CHR ''/''" "rev s" "CHR ''/''" "rev t"] by simp
qed

lemma takeWhile_eq_replicate:
  "takeWhile (\<lambda>c. c = a) xs = replicate (length (takeWhile (\<lambda>c. c = a) xs)) a"
  by (induction xs) simp_all

lemma rstrip_slash_decompose:
  "s = rstrip_slash s @ replicate (length (takeWhile (\<lambda>c. c = CHR ''/'') (rev s))) CHR ''/''"
proof -
  let ?P = "\<lambda>c. c = CHR ''/''"
  have "rev s = takeWhile ?P (rev s) @ dropWhile ?P (rev s)" by simp
  then have "rev (rev s) = rev (takeWhile ?P (rev s) @ dropWhile ?P (rev s))" by simp
  then have "s = rev (dropWhile ?P (rev s)) @ rev (takeWhile ?P (rev s))"
    by (simp only: rev_rev_ident rev_append)
  moreover have "rev (takeWhile ?P (rev s)) = replicate (length (takeWhile ?P (rev s))) CHR ''/''"
    using takeWhile_eq_replicate [of "CHR ''/''" "rev s"] by (metis rev_replicate)
  ultimately show ?thesis by (simp add: rstrip_slash_def)
qed

lemma base_url_init: "base_url (AMPEmailClient_init k b t) = rstrip_slash b"
  by (simp add: AMPEmailClient_init_def)

lemma issued_self: "issued c c = []"
  by (simp add: issued_def)

lemma issued_request:
  "issued c (snd (request tr c m p j)) =
     [\<lparr> req_method = m, req_url = base_url c @ p, req_timeout = timeout c,
        req_json = j, req_headers = headers (session c) \<rparr>]"
  by (simp add: issued_def request_def Let_def split: sum.splits)

lemma snd_generate:
  "snd (generate tr c pu ps cc uc bc go) =
     (if \<not> truthy pu \<and> \<not> truthy ps then c
      else snd (request tr c ''POST'' ''/api/v1/generate''
                  (Some (VDict (generate_payload pu ps cc uc bc go)))))"
  by (simp add: generate_def split: prod.splits sum.splits pyval.splits)

lemma issued_generate:
  "issued c (snd (generate tr c pu ps cc uc bc go)) =
     (if \<not> truthy pu \<and> \<not> truthy ps then []
      else [\<lparr> req_method = ''POST'', req_url = base_url c @ ''/api/v1/generate'',
              req_timeout = timeout c,
              req_json = Some (VDict (generate_payload pu ps cc uc bc go)),
              req_headers = headers (session c) \<rparr>])"
  by (simp add: snd_generate issued_self issued_request)

text \<open>
  C10. The constructor stores the base URL without its trailing slashes: for a base
  \<open>s\<close> followed by any number of slashes the stored value is \<open>s\<close> stripped, it ends in
  no slash, and \<open>s\<close> is the stored value followed by slashes only. Two clients built from
  bases that differ only in the number of trailing slashes (whatever their keys,
  timeouts and transports) store the same base, and each of the five operations issues
  its one request to the same URL on both: the stored base followed by the operation's
  path (\<open>generate\<close> issues it when a product list is given, and none otherwise).
\<close>

theorem base_url_trailing_slashes:
  assumes c1: "c1 = AMPEmailClient_init k1 (s @ replicate n CHR ''/'') t1"
      and c2: "c2 = AMPEmailClient_init k2 (s @ replicate m CHR ''/'') t2"
  shows "base_url c1 = rstrip_slash s
       \<and> (\<forall>u. base_url c1 \<noteq> u @ ''/'')
       \<and> (\<exists>j. s = base_url c1 @ replicate j CHR ''/'')
       \<and> base_url c1 = base_url c2
       \<and> map req_url (issued c1 (snd (generate tr1 c1 pu ps cc uc bc go)))
           = map req_url (issued c2 (snd (generate tr2 c2 pu ps cc uc bc go)))
       \<and> map req_url (issued c1 (snd (get_template tr1 c1 tid)))
           = map req_url (issued c2 (snd (get_template tr2 c2 tid)))
       \<and> map req_url (issued c1 (snd (personalize tr1 c1 tid rd)))
           = map req_url (issued c2 (snd (personalize tr2 c2 tid rd)))
       \<and> map req_url (issued c1 (snd (create_batch_campaign tr1 c1 nm us bcc mc cs wh)))
           = map req_url (issued c2 (snd (create_batch_campaign tr2 c2 nm us bcc mc cs wh)))
       \<and> map req_url (issued c1 (snd (get_campaign_analytics tr1 c1 cid)))
           = map req_url (issued c2 (snd (get_campaign_analytics tr2 c2 cid)))
       \<and> map req_url (issued c1 (snd (get_template tr1 c1 tid)))
           = [base_url c1 @ ''/api/v1/templates/'' @ tid]
       \<and> map req_url (issued c1 (snd (generate tr1 c1 pu ps cc uc bc go)))
           = (if truthy pu \<or> truthy ps then [base_url c1 @ ''/api/v1/generate''] else [])
       \<and> map req_url (issued c1 (snd (personalize tr1 c1 tid rd)))
           = [base_url c1 @ ''/api/v1/personalize'']
       \<and> map req_url (issued c1 (snd (create_batch_campaign tr1 c1 nm us bcc mc cs wh)))
           = [base_url c1 @ ''/api/v1/batch/campaign'']
       \<and> map req_url (issued c1 (snd (get_campaign_analytics tr1 c1 cid)))
           = [base_url c1 @ ''/api/v1/analytics/campaign/'' @ cid]"
proof -
  have b1: "base_url c1 = rstrip_slash s"
    by (simp add: c1 base_url_init rstrip_slash_append_slashes)
  have b2: "base_url c2 = rstrip_slash s"
    by (simp add: c2 base_url_init rstrip_slash_append_slashes)
  have nt: "\<forall>u. base_url c1 \<noteq> u @ ''/''"
    by (simp only: b1 rstrip_slash_no_trailing not_False_eq_True simp_thms)
  have dec: "\<exists>j. s = base_url c1 @ replicate j CHR ''/''"
    unfolding b1 using rstrip_slash_decompose [of s] by blast
  have g: "map req_url (issued c1 (snd (generate tr1 c1 pu ps cc uc bc go)))
           = map req_url (issued c2 (snd (generate tr2 c2 pu ps cc uc bc go)))"
    by (simp add: issued_generate b1 b2)
  have rest: "map req_url (issued c1 (snd (request tr1 c1 me pa js)))
           = map req_url (issued c2 (snd (request tr2 c2 me pa js)))" for me pa js
    by (simp add: issued_request b1 b2)
  have one: "map req_url (issued c1 (snd (request tr1 c1 me pa js))) = [base_url c1 @ pa]"
    for me pa js
    by (simp add: issued_request)
  have g1: "map req_url (issued c1 (snd (generate tr1 c1 pu ps cc uc bc go)))
           = (if truthy pu \<or> truthy ps then [base_url c1 @ ''/api/v1/generate''] else [])"
    by (simp add: issued_generate)
  show ?thesis
    using b1 b2 nt dec g rest one g1
    by (simp only: get_template_def personalize_def create_batch_campaign_def
          get_campaign_analytics_def simp_thms)
qed

theorem base_url_trailing_slashes_witness:
  "base_url (AMPEmailClient_init ''k'' ''https://h//'' 30 :: unit AMPEmailClient) = ''https://h''
   \<and> map req_url (issued (AMPEmailClient_init ''k'' ''https://h//'' 30 :: unit AMPEmailClient)
         (snd (get_template (\<lambda>r. Inl ''down'') (AMPEmailClient_init ''k'' ''https://h//'' 30) ''t1'')))
      = map req_url (issued (AMPEmailClient_init ''j'' ''https://h'' 5 :: unit AMPEmailClient)
         (snd (get_template (\<lambda>r. Inl ''down'') (AMPEmailClient_init ''j'' ''https://h'' 5) ''t1'')))
   \<and> map req_url (issued (AMPEmailClient_init ''k'' ''https://h//'' 30 :: unit AMPEmailClient)
         (snd (get_template (\<lambda>r. Inl ''down'') (AMPEmailClient_init ''k'' ''https://h//'' 30) ''t1'')))
      = [''https://h/api/v1/templates/t1'']
   \<and> map req_url (issued (AMPEmailClient_init ''k'' ''https://h//'' 30 :: unit AMPEmailClient)
         (snd (personalize (\<lambda>r. Inl ''down'') (AMPEmailClient_init ''k'' ''https://h//'' 30)
                ''t1'' [])))
      = [''https://h/api/v1/personalize'']
   \<and> map req_url (issued (AMPEmailClient_init ''j'' ''https://h'' 5 :: unit AMPEmailClient)
         (snd (personalize (\<lambda>r. Inl ''down'') (AMPEmailClient_init ''j'' ''https://h'' 5)
                ''t1'' [])))
      = [''https://h/api/v1/personalize'']"
proof -
  let ?c1 = "AMPEmailClient_init ''k'' ''https://h//'' 30 :: unit AMPEmailClient"
  let ?c2 = "AMPEmailClient_init ''j'' ''https://h'' 5 :: unit AMPEmailClient"
  have h1: "?c1 = AMPEmailClient_init ''k'' (''https://h'' @ replicate 2 CHR ''/'') 30"
    by (simp add: numeral_2_eq_2)
  have h2: "?c2 = AMPEmailClient_init ''j'' (''https://h'' @ replicate 0 CHR ''/'') 5"
    by simp
  have r: "rstrip_slash ''https://h'' = ''https://h''"
    by (simp add: rstrip_slash_def)
  note t = base_url_trailing_slashes [OF h1 h2,
      where ?tr1.0 = "\<lambda>r. Inl ''down''" and ?tr2.0 = "\<lambda>r. Inl ''down''" and tid = "''t1''"
        and rd = "[]"]
  have a: "base_url ?c1 = ''https://h''"
    using t [THEN conjunct1] r by simp
  have b: "map req_url (issued ?c1 (snd (get_template (\<lambda>r. Inl ''down'') ?c1 ''t1'')))
         = map req_url (issued ?c2 (snd (get_template (\<lambda>r. Inl ''down'') ?c2 ''t1'')))"
    by (rule t [THEN conjunct2, THEN conjunct2, THEN conjunct2, THEN conjunct2, THEN conjunct2, THEN conjunct1])
  have c: "map req_url (issued ?c1 (snd (get_template (\<lambda>r. Inl ''down'') ?c1 ''t1'')))
         = [base_url ?c1 @ ''/api/v1/templates/'' @ ''t1'']"
    by (rule t [THEN conjunct2, THEN conjunct2, THEN conjunct2, THEN conjunct2, THEN conjunct2, THEN conjunct2, THEN conjunct2, THEN conjunct2, THEN conjunct2, THEN conjunct1])
  have d: "map req_url (issued ?c1 (snd (personalize (\<lambda>r. Inl ''down'') ?c1 ''t1'' [])))
         = [base_url ?c1 @ ''/api/v1/personalize'']"
    by (rule t [THEN conjunct2, THEN conjunct2, THEN conjunct2, THEN conjunct2, THEN conjunct2, THEN conjunct2, THEN conjunct2, THEN conjunct2, THEN conjunct2, THEN conjunct2, THEN conjunct2, THEN conjunct1])
  have e: "map req_url (issued ?c1 (snd (personalize (\<lambda>r. Inl ''down'') ?c1 ''t1'' [])))
         = map req_url (issued ?c2 (snd (personalize (\<lambda>r. Inl ''down'') ?c2 ''t1'' [])))"
    by (rule t [THEN conjunct2, THEN conjunct2, THEN conjunct2, THEN conjunct2, THEN conjunct2, THEN conjunct2, THEN conjunct1])
  show ?thesis
    using a b c d e by simp
qed

subsection \<open>Classification of responses\<close>

lemma fst_request:
  "fst (request tr c m p j) =
     (case tr \<lparr> req_method = m, req_url = base_url c @ p, req_timeout = timeout c,
                req_json = j, req_headers = headers (session c) \<rparr> of
        Inl e \<Rightarrow> Inl (request_failed e)
      | Inr response \<Rightarrow> classify response)"
  by (simp add: request_def Let_def split: sum.splits)

lemma fst_returning_error: "fst r = Inl e \<Longrightarrow> fst (returning f r) = Inl e"
  by (cases r) (simp add: returning_def)

lemma fst_generate_error:
  "truthy pu \<or> truthy ps \<Longrightarrow>
   fst (request tr c ''POST'' ''/api/v1/generate''
          (Some (VDict (generate_payload pu ps cc uc bc go)))) = Inl e \<Longrightarrow>
   fst (generate tr c pu ps cc uc bc go) = Inl e"
  by (auto simp add: generate_def split: prod.splits sum.splits pyval.splits)

lemma request_answered:
  assumes "\<forall>req. \<exists>response. tr req = Inr response \<and> classify response = Inl e"
  shows "fst (request tr c m p j) = Inl e"
proof -
  obtain response where "tr \<lparr> req_method = m, req_url = base_url c @ p, req_timeout = timeout c,
                req_json = j, req_headers = headers (session c) \<rparr> = Inr response"
      and "classify response = Inl e"
    using assms by blast
  then show ?thesis by (simp add: fst_request)
qed

lemma perform_answered:
  assumes r: "reaches_transport op"
      and a: "\<forall>req. \<exists>response. tr req = Inr response \<and> classify response = Inl e"
  shows "fst (perform tr c op) = Inl e"
proof (cases op)
  case (Generate pu ps cc uc bc go)
  then show ?thesis
    using r by (simp add: fst_returning_error fst_generate_error request_answered [OF a])
next
  case (GetTemplate tid)
  then show ?thesis
    by (simp add: get_template_def fst_returning_error request_answered [OF a])
next
  case (Personalize tid rd)
  then show ?thesis
    by (simp add: personalize_def fst_returning_error request_answered [OF a])
next
  case (CreateBatchCampaign nm us cc mc cs wh)
  then show ?thesis
    by (simp add: create_batch_campaign_def fst_returning_error request_answered [OF a])
next
  case (GetCampaignAnalytics cid)
  then show ?thesis
    by (simp add: get_campaign_analytics_def fst_returning_error request_answered [OF a])
qed

text \<open>
  C4. Whichever of the five operations is called (\<open>generate\<close> with a product list, so
  that the call reaches the transport at all), when the transport answers with status
  401 the call raises \<open>AuthenticationError\<close>, and when it answers with status 429 the
  call raises \<open>RateLimitError\<close>, whatever the rest of the response.
\<close>

theorem status_401_and_429:
  assumes "reaches_transport op"
      and "st = 401 \<or> st = 429"
      and "\<forall>req. \<exists>response. tr req = Inr response \<and> status_code response = st"
  shows "fst (perform tr c op) =
           Inl (if st = 401 then AuthenticationError ''Invalid API key''
                else RateLimitError ''Rate limit exceeded'')"
proof -
  have "\<forall>req. \<exists>response. tr req = Inr response \<and>
          classify response = Inl (if st = 401 then AuthenticationError ''Invalid API key''
                else RateLimitError ''Rate limit exceeded'')"
  proof
    fix req
    obtain response where t: "tr req = Inr response" and s: "status_code response = st"
      using assms(3) by blast
    have "classify response = Inl (if st = 401 then AuthenticationError ''Invalid API key''
                else RateLimitError ''Rate limit exceeded'')"
      using assms(2) s by (auto simp add: classify_def)
    with t show "\<exists>response. tr req = Inr response \<and>
          classify response = Inl (if st = 401 then AuthenticationError ''Invalid API key''
                else RateLimitError ''Rate limit exceeded'')" by blast
  qed
  then show ?thesis by (rule perform_answered [OF assms(1)])
qed

theorem status_401_and_429_witness:
  "fst (perform (mock_transport \<lparr> status_code = 401, content = [], json_body = Inl ''empty'' \<rparr>)
          client0 (Generate (Some [''https://shop/p1'']) None None None None None))
     = Inl (AuthenticationError ''Invalid API key'')
   \<and> fst (perform (mock_transport \<lparr> status_code = 429, content = [], json_body = Inl ''empty'' \<rparr>)
          client0 (GetCampaignAnalytics ''c1''))
     = Inl (RateLimitError ''Rate limit exceeded'')"
proof -
  have a: "reaches_transport (Generate (Some [''https://shop/p1'']) None None None None None :: unit operation)"
    by (simp add: truthy_def)
  have b: "reaches_transport (GetCampaignAnalytics ''c1'' :: unit operation)"
    by simp
  have m: "\<forall>req. \<exists>response. mock_transport \<lparr> status_code = s, content = [], json_body = Inl ''empty'' \<rparr> req
              = Inr response \<and> status_code response = s" for s :: int
    by (simp add: mock_transport_def)
  show ?thesis
    using status_401_and_429 [OF a _ m [of 401], of client0]
          status_401_and_429 [OF b _ m [of 429], of client0]
    by simp
qed

lemma perform_mocked:
  assumes "reaches_transport op" and "classify response = Inl e"
  shows "fst (perform (mock_transport response) c op) = Inl e"
  using assms by (intro perform_answered) (simp_all add: mock_transport_def)

lemma str_int_500: "str_int 500 = ''500''"
  by (simp add: str_int_def digit_char_def)

text \<open>
  C5, as the code has it. For a response with a status of 400 or more other than 401 and
  429 whose body is empty, does not decode, or decodes to a JSON object, every operation
  that reaches the transport raises the generic \<open>AMPEmailError\<close>, and its message is: the
  value of the \<^verbatim>\<open>message\<close> key when the body is not empty and decodes to a JSON object
  with that key; \<^verbatim>\<open>API error: <status>\<close> when the body is empty, or decodes to a JSON
  object without that key; and \<^verbatim>\<open>Request failed: <description>\<close>, with the decoder's
  description, when the body is not empty and does not decode.
\<close>

theorem other_http_errors:
  assumes reach: "reaches_transport op"
      and st: "400 \<le> status_code response" "status_code response \<noteq> 401"
              "status_code response \<noteq> 429"
  shows "(content response \<noteq> [] \<and> json_body response = Inr (VDict error_data)
            \<and> map_of error_data ''message'' = Some m
          \<longrightarrow> fst (perform (mock_transport response) c op) = Inl (AMPEmailError m))
       \<and> (content response = []
            \<or> json_body response = Inr (VDict error_data) \<and> map_of error_data ''message'' = None
          \<longrightarrow> fst (perform (mock_transport response) c op)
                = Inl (AMPEmailError (VStr (''API error: '' @ str_int (status_code response)))))
       \<and> (content response \<noteq> [] \<and> json_body response = Inl d
          \<longrightarrow> fst (perform (mock_transport response) c op)
                = Inl (AMPEmailError (VStr (''Request failed: '' @ d))))"
proof (intro conjI impI)
  assume "content response \<noteq> [] \<and> json_body response = Inr (VDict error_data)
            \<and> map_of error_data ''message'' = Some m"
  then have "classify response = Inl (AMPEmailError m)"
    using st by (simp add: classify_def)
  then show "fst (perform (mock_transport response) c op) = Inl (AMPEmailError m)"
    by (rule perform_mocked [OF reach])
next
  assume "content response = []
            \<or> json_body response = Inr (VDict error_data) \<and> map_of error_data ''message'' = None"
  then have "classify response
               = Inl (AMPEmailError (VStr (''API error: '' @ str_int (status_code response))))"
    using st by (auto simp add: classify_def)
  then show "fst (perform (mock_transport response) c op)
               = Inl (AMPEmailError (VStr (''API error: '' @ str_int (status_code response))))"
    by (rule perform_mocked [OF reach])
next
  assume "content response \<noteq> [] \<and> json_body response = Inl d"
  then have "classify response = Inl (AMPEmailError (VStr (''Request failed: '' @ d)))"
    using st by (simp add: classify_def request_failed_def)
  then show "fst (perform (mock_transport response) c op)
               = Inl (AMPEmailError (VStr (''Request failed: '' @ d)))"
    by (rule perform_mocked [OF reach])
qed

theorem other_http_errors_witness:
  "fst (perform (mock_transport \<lparr> status_code = 500, content = ''{\"message\": \"boom\"}'',
                                  json_body = Inr (VDict [(''message'', VStr ''boom'')]) \<rparr>)
          client0 (GetTemplate ''t1'')) = Inl (AMPEmailError (VStr ''boom''))
   \<and> fst (perform (mock_transport \<lparr> status_code = 500, content = [],
                                  json_body = Inl ''Expecting value: line 1 column 1 (char 0)'' \<rparr>)
          client0 (GetTemplate ''t1'')) = Inl (AMPEmailError (VStr ''API error: 500''))
   \<and> fst (perform (mock_transport \<lparr> status_code = 500, content = ''<html>'',
                                  json_body = Inl ''Expecting value: line 1 column 1 (char 0)'' \<rparr>)
          client0 (GetTemplate ''t1''))
       = Inl (AMPEmailError (VStr ''Request failed: Expecting value: line 1 column 1 (char 0)''))"
proof -
  have r: "reaches_transport (GetTemplate ''t1'' :: unit operation)" by simp
  note t = other_http_errors [OF r, where c = client0]
  have a: "fst (perform (mock_transport \<lparr> status_code = 500, content = ''{\"message\": \"boom\"}'',
                                  json_body = Inr (VDict [(''message'', VStr ''boom'')]) \<rparr>)
          client0 (GetTemplate ''t1'')) = Inl (AMPEmailError (VStr ''boom''))"
    using t [where response = "\<lparr> status_code = 500, content = ''{\"message\": \"boom\"}'',
                                  json_body = Inr (VDict [(''message'', VStr ''boom'')]) \<rparr>"
               and error_data = "[(''message'', VStr ''boom'')]" and m = "VStr ''boom''",
             THEN conjunct1]
    by simp
  have b: "fst (perform (mock_transport \<lparr> status_code = 500, content = [],
                                  json_body = Inl ''Expecting value: line 1 column 1 (char 0)'' \<rparr>)
          client0 (GetTemplate ''t1'')) = Inl (AMPEmailError (VStr ''API error: 500''))"
    using t [where response = "\<lparr> status_code = 500, content = [],
                                  json_body = Inl ''Expecting value: line 1 column 1 (char 0)'' \<rparr>",
             THEN conjunct2, THEN conjunct1]
    by (simp add: str_int_500)
  have c: "fst (perform (mock_transport \<lparr> status_code = 500, content = ''<html>'',
                                  json_body = Inl ''Expecting value: line 1 column 1 (char 0)'' \<rparr>)
          client0 (GetTemplate ''t1''))
       = Inl (AMPEmailError (VStr ''Request failed: Expecting value: line 1 column 1 (char 0)''))"
    using t [where response = "\<lparr> status_code = 500, content = ''<html>'',
                                  json_body = Inl ''Expecting value: line 1 column 1 (char 0)'' \<rparr>"
               and d = "''Expecting value: line 1 column 1 (char 0)''",
             THEN conjunct2, THEN conjunct2]
    by simp
  show ?thesis using a b c by blast
qed

text \<open>
  C5 as stated fails twice. A status 500 response whose body is the text \<^verbatim>\<open><html>\<close>
  has no parseable body, yet the message is not \<^verbatim>\<open>API error: 500\<close>: the guard of the
  code tests only whether the body is empty, and the decoding error of a body that is not
  empty is caught by the \<^verbatim>\<open>except\<close> clause and reported as a failed request. And a
  status 500 response whose body is the JSON list \<^verbatim>\<open>[]\<close> raises no API error at all
  but an \<open>AttributeError\<close>, since a list has no \<^verbatim>\<open>get\<close>.
\<close>

theorem unparseable_error_body:
  "fst (perform (mock_transport \<lparr> status_code = 500, content = ''<html>'',
                                  json_body = Inl ''Expecting value: line 1 column 1 (char 0)'' \<rparr>)
          client0 (GetTemplate ''t1''))
     = Inl (AMPEmailError (VStr ''Request failed: Expecting value: line 1 column 1 (char 0)''))
   \<and> fst (perform (mock_transport \<lparr> status_code = 500, content = ''<html>'',
                                  json_body = Inl ''Expecting value: line 1 column 1 (char 0)'' \<rparr>)
          client0 (GetTemplate ''t1''))
     \<noteq> Inl (AMPEmailError (VStr ''API error: 500''))
   \<and> fst (perform (mock_transport \<lparr> status_code = 500, content = ''[]'',
                                  json_body = Inr (VList []) \<rparr>)
          client0 (GetTemplate ''t1''))
     = Inl AttributeError
   \<and> \<not> isinstance_AMPEmailError (AttributeError :: unit error)"
proof -
  have r: "reaches_transport (GetTemplate ''t1'' :: unit operation)" by simp
  have a: "fst (perform (mock_transport \<lparr> status_code = 500, content = ''<html>'',
                 json_body = Inl ''Expecting value: line 1 column 1 (char 0)'' \<rparr>)
               client0 (GetTemplate ''t1''))
          = Inl (AMPEmailError
                   (VStr ''Request failed: Expecting value: line 1 column 1 (char 0)''))"
    by (rule perform_mocked [OF r]) (simp add: classify_def request_failed_def)
  have b: "fst (perform (mock_transport \<lparr> status_code = 500, content = ''[]'',
                                  json_body = Inr (VList []) \<rparr>)
          client0 (GetTemplate ''t1''))
     = Inl AttributeError"
    by (rule perform_mocked [OF r]) (simp add: classify_def)
  show ?thesis using a b by simp
qed

subsection \<open>The argument check of generate\<close>

text \<open>
  C1, as the code has it. When \<^verbatim>\<open>product_urls\<close> and \<^verbatim>\<open>products\<close> are both unset or
  empty, \<open>generate\<close> raises Python's built-in \<open>ValueError\<close> with the message
  \<^verbatim>\<open>Either product_urls or products must be provided\<close>, which is not an
  \<open>AMPEmailError\<close>; the client is returned as it was and no request has been issued.
\<close>

theorem generate_without_products:
  assumes "\<not> truthy product_urls" and "\<not> truthy products"
  shows "generate tr c product_urls products cc uc bc go
           = (Inl (ValueError ''Either product_urls or products must be provided''), c)
       \<and> issued c (snd (generate tr c product_urls products cc uc bc go)) = []
       \<and> \<not> isinstance_AMPEmailError
             (ValueError ''Either product_urls or products must be provided'' :: 'f error)"
  using assms by (simp add: generate_def issued_self)

theorem generate_without_products_witness:
  "generate (mock_transport \<lparr> status_code = 200, content = ''{}'', json_body = Inr (VDict []) \<rparr>)
       client0 None (Some []) None None None None
     = (Inl (ValueError ''Either product_urls or products must be provided''), client0)
   \<and> issued client0 (snd (generate
         (mock_transport \<lparr> status_code = 200, content = ''{}'', json_body = Inr (VDict []) \<rparr>)
         client0 None (Some []) None None None None)) = []"
proof -
  have a: "\<not> truthy (None :: string list option)" by (simp add: truthy_def)
  have b: "\<not> truthy (Some [] :: unit Product list option)" by (simp add: truthy_def)
  show ?thesis
    using generate_without_products [OF a b, of
        "mock_transport \<lparr> status_code = 200, content = ''{}'', json_body = Inr (VDict []) \<rparr>"
        client0 None None None None]
    by blast
qed

text \<open>
  C1 as stated fails: the error raised for an empty product list is not of the client's
  error taxonomy. It is the built-in \<open>ValueError\<close>, not the \<open>ValidationError\<close> that
  \<^verbatim>\<open>exceptions.py\<close> declares and that \<^verbatim>\<open>client.py\<close> never imports.
\<close>

theorem generate_error_not_in_taxonomy:
  "fst (generate (mock_transport \<lparr> status_code = 200, content = ''{}'', json_body = Inr (VDict []) \<rparr>)
          client0 None (Some []) None None None None)
     = Inl (ValueError ''Either product_urls or products must be provided'')
   \<and> \<not> isinstance_AMPEmailError
         (ValueError ''Either product_urls or products must be provided'' :: unit error)
   \<and> fst (generate (mock_transport \<lparr> status_code = 200, content = ''{}'', json_body = Inr (VDict []) \<rparr>)
          client0 None (Some []) None None None None)
     \<noteq> Inl (ValidationError ''Either product_urls or products must be provided'')"
  by (simp add: generate_def truthy_def)

subsection \<open>The body of a batch campaign\<close>

text \<open>
  C7, as the code has it. The body \<open>create_batch_campaign\<close> sends holds
  \<^verbatim>\<open>campaign_name\<close>, \<^verbatim>\<open>product_urls\<close>, the \<^verbatim>\<open>.dict()\<close> of the campaign context,
  \<^verbatim>\<open>max_concurrent\<close> (10 when not given) and \<^verbatim>\<open>chunk_size\<close> (100 when not given). The
  key \<^verbatim>\<open>webhook_url\<close> is absent when the argument is not given or is the empty string,
  and holds the argument verbatim otherwise. That body is the JSON of the one request the
  operation issues.
\<close>

theorem batch_payload:
  "map_of (create_batch_campaign_payload nm us cc mc cs wh) ''campaign_name'' = Some (VStr nm)
 \<and> map_of (create_batch_campaign_payload nm us cc mc cs wh) ''product_urls''
      = Some (VList (map VStr us))
 \<and> map_of (create_batch_campaign_payload nm us cc mc cs wh) ''campaign_context''
      = Some (VDict (CampaignContext_dict cc))
 \<and> map_of (create_batch_campaign_payload nm us cc mc cs wh) ''max_concurrent''
      = Some (VInt (case mc of None \<Rightarrow> 10 | Some n \<Rightarrow> n))
 \<and> map_of (create_batch_campaign_payload nm us cc mc cs wh) ''chunk_size''
      = Some (VInt (case cs of None \<Rightarrow> 100 | Some n \<Rightarrow> n))
 \<and> map_of (create_batch_campaign_payload nm us cc mc cs wh) ''webhook_url''
      = (case wh of None \<Rightarrow> None | Some w \<Rightarrow> if w = [] then None else Some (VStr w))
 \<and> map req_json (issued c (snd (create_batch_campaign tr c nm us cc mc cs wh)))
      = [Some (VDict (create_batch_campaign_payload nm us cc mc cs wh))]"
proof -
  have w: "map_of (create_batch_campaign_payload nm us cc mc cs wh) ''webhook_url''
      = (case wh of None \<Rightarrow> None | Some w \<Rightarrow> if w = [] then None else Some (VStr w))"
  proof (cases wh)
    case None
    then show ?thesis by (simp add: create_batch_campaign_payload_def)
  next
    case (Some w)
    then show ?thesis by (cases w) (simp_all add: create_batch_campaign_payload_def)
  qed
  show ?thesis
    by (simp only: w simp_thms)
       (simp add: create_batch_campaign_payload_def create_batch_campaign_def issued_request
          default_max_concurrent_def default_chunk_size_def split: option.splits)
qed

text \<open>
  C7 as stated fails: a webhook URL that is supplied as the empty string is left out of
  the body, because the code tests the argument for truth, not for \<^verbatim>\<open>None\<close>.
\<close>

theorem batch_payload_empty_webhook:
  "map_of (create_batch_campaign_payload ''spring'' [''https://shop/p1'']
             (\<lparr> type = PROMOTIONAL, goal = CONVERSION, urgency = None, discount = None \<rparr>
                :: unit CampaignContext)
             None None (Some '''')) ''webhook_url'' = None"
  by (simp add: create_batch_campaign_payload_def)

section \<open>Properties of the data model\<close>

subsection \<open>Serializing and constructing again\<close>

lemma ap_Inr [simp]: "ap (Inr f) (Inr a) = Inr (f a)"
  by (simp add: ap_def)

lemma under_Inr [simp]: "under l (Inr a) = Inr a"
  by (simp add: under_def)

lemma raise_validation_Inr [simp]: "raise_validation (Inr a) = Inr a"
  by (simp add: raise_validation_def)

lemma optional_None [simp]: "validate_optional f VNone = Inr None"
  by (simp add: validate_optional_def)

lemma optional_str_dict [simp]: "validate_optional validate_str (opt_val VStr x) = Inr x"
  by (cases x) (simp_all add: validate_optional_def validate_str_def opt_val_def)

lemma optional_float_dict [simp]: "validate_optional (validate_float L) (opt_val VFloat x) = Inr x"
  by (cases x) (simp_all add: validate_optional_def validate_float_def opt_val_def)

lemma optional_dict_dict [simp]: "validate_optional validate_dict_any (opt_val VDict x) = Inr x"
  by (cases x) (simp_all add: validate_optional_def validate_dict_any_def opt_val_def)

lemma CampaignType_dict [simp]:
  "validate_enum CampaignType_members CampaignType_value (VStr (CampaignType_value t)) = Inr t"
  by (cases t) (simp_all add: validate_enum_def CampaignType_members_def)

lemma CampaignGoal_dict [simp]:
  "validate_enum CampaignGoal_members CampaignGoal_value (VStr (CampaignGoal_value g)) = Inr g"
  by (cases g) (simp_all add: validate_enum_def CampaignGoal_members_def)

lemma Urgency_dict:
  "validate_enum Urgency_members Urgency_value (VStr (Urgency_value u)) = Inr u"
  by (cases u) (simp_all add: validate_enum_def Urgency_members_def)

lemma optional_Urgency_dict [simp]:
  "validate_optional (validate_enum Urgency_members Urgency_value)
     (opt_val (\<lambda>u. VStr (Urgency_value u)) x) = Inr x"
  by (cases x) (simp_all add: validate_optional_def opt_val_def Urgency_dict)

lemma collect_strs:
  "length is = length cs \<Longrightarrow>
   collect (map (\<lambda>(i, x). under (Idx i) (validate_str x)) (zip is (map VStr cs))) = Inr cs"
proof (induction cs arbitrary: "is")
  case Nil
  then show ?case by simp
next
  case (Cons c cs)
  then obtain i is' where "is = i # is'" and "length is' = length cs"
    by (cases "is") auto
  with Cons.IH [of is'] show ?case by (simp add: validate_str_def)
qed

lemma list_str_dict: "validate_list validate_str (VList (map VStr cs)) = Inr cs"
  by (simp add: validate_list_def collect_strs)

lemma optional_colors_dict [simp]:
  "validate_optional (validate_list validate_str) (opt_val (\<lambda>cs. VList (map VStr cs)) x) = Inr x"
  by (cases x) (simp_all add: validate_optional_def opt_val_def list_str_dict)

lemma Product_round_trip: "Product_init L (Product_dict p) = Inr p"
  by (simp add: Product_init_def Product_dict_def field_default_def)

lemma CampaignContext_round_trip: "CampaignContext_init L (CampaignContext_dict cc) = Inr cc"
  by (simp add: CampaignContext_init_def CampaignContext_dict_def field_default_def
        field_required_def)

lemma UserContext_round_trip:
  "UserContext_init (UserContext_dict u)
     = Inr (u \<lparr> first_name := None, last_name := None, custom_fields := None \<rparr>)"
  by (simp add: UserContext_init_def UserContext_dict_def field_default_def)

lemma BrandContext_round_trip:
  "BrandContext_init (BrandContext_dict b) = Inr (b \<lparr> company_name := None \<rparr>)"
  by (simp add: BrandContext_init_def BrandContext_dict_def field_default_def)

lemma GenerationOptions_round_trip:
  "GenerationOptions_init L (GenerationOptions_dict g) = Inr (g \<lparr> preserve_merge_tags := True \<rparr>)"
  by (simp add: GenerationOptions_init_def GenerationOptions_dict_def field_default_def
        validate_int_def)

text \<open>
  C2, as the code has it. A \<open>Product\<close> and a \<open>CampaignContext\<close>, which declare no alias,
  are constructed again from their own \<^verbatim>\<open>.dict()\<close> as an equal object. For
  \<open>UserContext\<close>, \<open>BrandContext\<close> and \<open>GenerationOptions\<close> the mapping names every field
  by its snake_case attribute, while the constructor reads an aliased field only under
  its camelCase alias: the object constructed again keeps the fields without alias and
  has each aliased field at its default, so it equals the original exactly when the
  aliased fields of the original hold their defaults.
\<close>

theorem dict_round_trip:
  "Product_init L (Product_dict p) = Inr p
 \<and> CampaignContext_init L (CampaignContext_dict cc) = Inr cc
 \<and> UserContext_init (UserContext_dict u)
      = Inr (u \<lparr> first_name := None, last_name := None, custom_fields := None \<rparr>)
 \<and> (UserContext_init (UserContext_dict u) = Inr u
      \<longleftrightarrow> first_name u = None \<and> last_name u = None \<and> custom_fields u = None)
 \<and> BrandContext_init (BrandContext_dict b :: 'f pydict) = Inr (b \<lparr> company_name := None \<rparr>)
 \<and> (BrandContext_init (BrandContext_dict b :: 'f pydict) = Inr b \<longleftrightarrow> company_name b = None)
 \<and> GenerationOptions_init L (GenerationOptions_dict g)
      = Inr (g \<lparr> preserve_merge_tags := True \<rparr>)
 \<and> (GenerationOptions_init L (GenerationOptions_dict g) = Inr g \<longleftrightarrow> preserve_merge_tags g)"
proof -
  have u: "(u \<lparr> first_name := None, last_name := None, custom_fields := None \<rparr> = u)
             \<longleftrightarrow> first_name u = None \<and> last_name u = None \<and> custom_fields u = None"
    by (cases u) auto
  have b: "(b \<lparr> company_name := None \<rparr> = b) \<longleftrightarrow> company_name b = None"
    by (cases b) auto
  have g: "(g \<lparr> preserve_merge_tags := True \<rparr> = g) \<longleftrightarrow> preserve_merge_tags g"
    by (cases g) auto
  show ?thesis
    by (simp only: Product_round_trip CampaignContext_round_trip UserContext_round_trip
          BrandContext_round_trip GenerationOptions_round_trip sum.inject u b g simp_thms)
qed

text \<open>
  C2 as stated fails: a \<open>UserContext\<close> with a first name is serialized under the key
  \<^verbatim>\<open>first_name\<close>, which the constructor ignores, and comes back without the name.
\<close>

theorem aliased_field_lost_in_round_trip:
  "UserContext_init (UserContext_dict
       (\<lparr> first_name = Some ''Ada'', last_name = None, email = None, custom_fields = None \<rparr>
          :: unit UserContext))
     = Inr \<lparr> first_name = None, last_name = None, email = None, custom_fields = None \<rparr>
   \<and> UserContext_init (UserContext_dict
       (\<lparr> first_name = Some ''Ada'', last_name = None, email = None, custom_fields = None \<rparr>
          :: unit UserContext))
     \<noteq> Inr \<lparr> first_name = Some ''Ada'', last_name = None, email = None, custom_fields = None \<rparr>"
  by (simp add: UserContext_round_trip)

subsection \<open>Generation options\<close>

text \<open>
  C9, as the code has it. \<open>variations\<close> is an integer with default 3 and no bound:
  every integer is accepted, also zero and the negative ones. \<open>preserve_merge_tags\<close> is
  a boolean with default true, read by the constructor under the camelCase alias
  \<^verbatim>\<open>preserveMergeTags\<close> and written by \<^verbatim>\<open>.dict()\<close> under its attribute name.
\<close>

theorem generation_options_fields:
  "GenerationOptions_init L [] = Inr \<lparr> variations = 3, preserve_merge_tags = True \<rparr>
 \<and> GenerationOptions_init L [(''variations'', VInt n), (''preserveMergeTags'', VBool b)]
      = Inr \<lparr> variations = n, preserve_merge_tags = b \<rparr>
 \<and> GenerationOptions_dict \<lparr> variations = n, preserve_merge_tags = b \<rparr>
      = [(''variations'', VInt n), (''preserve_merge_tags'', VBool b)]"
  by (simp add: GenerationOptions_init_def GenerationOptions_dict_def field_default_def
        validate_int_def validate_bool_def)

text \<open>
  C9 as stated fails: the class declares no constraint on \<open>variations\<close>, so zero and
  \<open>- 5\<close> are accepted, and the serialized mapping has no camelCase key.
\<close>

theorem non_positive_variations_accepted:
  "GenerationOptions_init (no_lax :: unit lax_mode) [(''variations'', VInt 0)]
     = Inr \<lparr> variations = 0, preserve_merge_tags = True \<rparr>
   \<and> GenerationOptions_init (no_lax :: unit lax_mode) [(''variations'', VInt (- 5))]
     = Inr \<lparr> variations = - 5, preserve_merge_tags = True \<rparr>
   \<and> map_of (GenerationOptions_dict \<lparr> variations = 0, preserve_merge_tags = True \<rparr>
               :: unit pydict) ''preserveMergeTags'' = None"
  by (simp add: GenerationOptions_init_def GenerationOptions_dict_def field_default_def
        validate_int_def)

subsection \<open>The keys of a serialized mapping\<close>

lemma field_default_explicit_None:
  "map_of kw k = None \<Longrightarrow>
   field_default ((k, VNone) # kw) k' None (validate_optional f)
     = field_default kw k' None (validate_optional f)"
  by (simp add: field_default_def)

lemma field_default_other_key:
  "k \<noteq> k' \<Longrightarrow> field_default ((k, v) # kw) k' d f = field_default kw k' d f"
  by (simp add: field_default_def)

lemma field_required_other_key:
  "k \<noteq> k' \<Longrightarrow> field_required ((k, v) # kw) k' f = field_required kw k' f"
  by (simp add: field_required_def)

lemma Product_explicit_None:
  assumes "k \<in> set [''id'', ''name'', ''price'', ''image'', ''url'', ''description'', ''brand'']"
      and "map_of kw k = None"
  shows "Product_init L ((k, VNone) # kw) = Product_init L kw"
proof -
  have "k \<noteq> ''currency''" using assms(1) by auto
  then show ?thesis
    by (simp add: Product_init_def field_default_explicit_None [OF assms(2)]
          field_default_other_key)
qed

lemma CampaignContext_explicit_None:
  assumes "k \<in> set [''urgency'', ''discount'']" and "map_of kw k = None"
  shows "CampaignContext_init L ((k, VNone) # kw) = CampaignContext_init L kw"
proof -
  have "k \<noteq> ''type''" "k \<noteq> ''goal''" using assms(1) by auto
  then show ?thesis
    by (simp add: CampaignContext_init_def field_default_explicit_None [OF assms(2)]
          field_required_other_key)
qed

lemma UserContext_explicit_None:
  assumes "map_of kw k = None"
  shows "UserContext_init ((k, VNone) # kw) = UserContext_init kw"
  by (simp add: UserContext_init_def field_default_explicit_None [OF assms])

lemma BrandContext_explicit_None:
  assumes "map_of kw k = None"
  shows "BrandContext_init ((k, VNone) # kw) = BrandContext_init kw"
  by (simp add: BrandContext_init_def field_default_explicit_None [OF assms])

lemma Product_explicit_currency:
  assumes "map_of kw ''currency'' = None"
  shows "Product_init L ((''currency'', VStr ''USD'') # kw) = Product_init L kw"
proof -
  have "field_default ((''currency'', VStr ''USD'') # kw) ''currency'' (Some ''USD'')
          (validate_optional validate_str)
        = field_default kw ''currency'' (Some ''USD'') (validate_optional validate_str)"
    using assms by (simp add: field_default_def validate_optional_def validate_str_def)
  then show ?thesis
    by (simp add: Product_init_def field_default_other_key)
qed

lemma GenerationOptions_explicit_variations:
  assumes "map_of kw ''variations'' = None"
  shows "GenerationOptions_init L ((''variations'', VInt 3) # kw) = GenerationOptions_init L kw"
proof -
  have "field_default ((''variations'', VInt 3) # kw) ''variations'' 3 (validate_int L)
        = field_default kw ''variations'' 3 (validate_int L)"
    using assms by (simp add: field_default_def validate_int_def)
  then show ?thesis
    by (simp add: GenerationOptions_init_def field_default_other_key)
qed

lemma GenerationOptions_explicit_preserve:
  assumes "map_of kw ''preserveMergeTags'' = None"
  shows "GenerationOptions_init L ((''preserveMergeTags'', VBool True) # kw)
           = GenerationOptions_init L kw"
proof -
  have "field_default ((''preserveMergeTags'', VBool True) # kw) ''preserveMergeTags'' True
          (validate_bool L)
        = field_default kw ''preserveMergeTags'' True (validate_bool L)"
    using assms by (simp add: field_default_def validate_bool_def)
  then show ?thesis
    by (simp add: GenerationOptions_init_def field_default_other_key)
qed

lemma Product_currency_None:
  "Product_init L [] = Inr \<lparr> id_Product = None, name = None, price = None,
       currency = Some ''USD'', image = None, url_Product = None, description = None,
       brand = None \<rparr>
   \<and> Product_init L [(''currency'', VNone)] = Inr \<lparr> id_Product = None, name = None,
       price = None, currency = None, image = None, url_Product = None, description = None,
       brand = None \<rparr>"
  by (simp add: Product_init_def field_default_def)

text \<open>
  C3, as the code has it. For every request-side model instance, \<^verbatim>\<open>.dict()\<close> produces a
  mapping with one entry for every declared field, in declaration order, under the
  attribute name, also where an alias is declared. Nothing is omitted: a field the
  caller never set is present with its declared default. Leaving a field out and giving
  it its declared default therefore construct equal objects, which serialize to the same
  mapping; the default is \<^verbatim>\<open>None\<close> for every optional field but the currency of a
  \<open>Product\<close>, whose default is \<^verbatim>\<open>"USD"\<close>, and it is 3 and true for the two generation
  options. A currency given as \<^verbatim>\<open>None\<close> is kept and serialized as \<^verbatim>\<open>None\<close>.
\<close>

theorem dict_keys:
  "map fst (Product_dict p)
     = [''id'', ''name'', ''price'', ''currency'', ''image'', ''url'', ''description'', ''brand'']
 \<and> map fst (CampaignContext_dict cc) = [''type'', ''goal'', ''urgency'', ''discount'']
 \<and> map fst (UserContext_dict u) = [''first_name'', ''last_name'', ''email'', ''custom_fields'']
 \<and> map fst (BrandContext_dict b) = [''voice'', ''colors'', ''logo'', ''company_name'']
 \<and> map fst (GenerationOptions_dict g) = [''variations'', ''preserve_merge_tags'']
 \<and> (k \<in> set [''id'', ''name'', ''price'', ''image'', ''url'', ''description'', ''brand'']
        \<and> map_of kw k = None
      \<longrightarrow> Product_init L ((k, VNone) # kw) = Product_init L kw)
 \<and> (k \<in> set [''urgency'', ''discount''] \<and> map_of kw k = None
      \<longrightarrow> CampaignContext_init L ((k, VNone) # kw) = CampaignContext_init L kw)
 \<and> (map_of kw k = None \<longrightarrow> UserContext_init ((k, VNone) # kw) = UserContext_init kw)
 \<and> (map_of kw k = None \<longrightarrow> BrandContext_init ((k, VNone) # kw) = BrandContext_init kw)
 \<and> (map_of kw ''currency'' = None
      \<longrightarrow> Product_init L ((''currency'', VStr ''USD'') # kw) = Product_init L kw)
 \<and> (map_of kw ''variations'' = None
      \<longrightarrow> GenerationOptions_init L ((''variations'', VInt 3) # kw)
            = GenerationOptions_init L kw)
 \<and> (map_of kw ''preserveMergeTags'' = None
      \<longrightarrow> GenerationOptions_init L ((''preserveMergeTags'', VBool True) # kw)
            = GenerationOptions_init L kw)
 \<and> Product_init L [] = Inr \<lparr> id_Product = None, name = None, price = None,
       currency = Some ''USD'', image = None, url_Product = None, description = None,
       brand = None \<rparr>
 \<and> Product_init L [(''currency'', VNone)] = Inr \<lparr> id_Product = None, name = None,
       price = None, currency = None, image = None, url_Product = None, description = None,
       brand = None \<rparr>
 \<and> map_of (Product_dict p) ''currency'' = Some (opt_val VStr (currency p))"
proof (intro conjI impI)
  show "map fst (Product_dict p)
     = [''id'', ''name'', ''price'', ''currency'', ''image'', ''url'', ''description'', ''brand'']"
    by (simp add: Product_dict_def)
  show "map fst (CampaignContext_dict cc) = [''type'', ''goal'', ''urgency'', ''discount'']"
    by (simp add: CampaignContext_dict_def)
  show "map fst (UserContext_dict u) = [''first_name'', ''last_name'', ''email'', ''custom_fields'']"
    by (simp add: UserContext_dict_def)
  show "map fst (BrandContext_dict b) = [''voice'', ''colors'', ''logo'', ''company_name'']"
    by (simp add: BrandContext_dict_def)
  show "map fst (GenerationOptions_dict g) = [''variations'', ''preserve_merge_tags'']"
    by (simp add: GenerationOptions_dict_def)
  show "Product_init L ((k, VNone) # kw) = Product_init L kw"
    if "k \<in> set [''id'', ''name'', ''price'', ''image'', ''url'', ''description'', ''brand'']
        \<and> map_of kw k = None"
    using that by (intro Product_explicit_None) blast+
  show "CampaignContext_init L ((k, VNone) # kw) = CampaignContext_init L kw"
    if "k \<in> set [''urgency'', ''discount''] \<and> map_of kw k = None"
    using that by (intro CampaignContext_explicit_None) blast+
  show "UserContext_init ((k, VNone) # kw) = UserContext_init kw" if "map_of kw k = None"
    using that by (rule UserContext_explicit_None)
  show "BrandContext_init ((k, VNone) # kw) = BrandContext_init kw" if "map_of kw k = None"
    using that by (rule BrandContext_explicit_None)
  show "Product_init L ((''currency'', VStr ''USD'') # kw) = Product_init L kw"
    if "map_of kw ''currency'' = None"
    using that by (rule Product_explicit_currency)
  show "GenerationOptions_init L ((''variations'', VInt 3) # kw) = GenerationOptions_init L kw"
    if "map_of kw ''variations'' = None"
    using that by (rule GenerationOptions_explicit_variations)
  show "GenerationOptions_init L ((''preserveMergeTags'', VBool True) # kw)
            = GenerationOptions_init L kw"
    if "map_of kw ''preserveMergeTags'' = None"
    using that by (rule GenerationOptions_explicit_preserve)
  show "Product_init L [] = Inr \<lparr> id_Product = None, name = None, price = None,
       currency = Some ''USD'', image = None, url_Product = None, description = None,
       brand = None \<rparr>"
    by (rule Product_currency_None [THEN conjunct1])
  show "Product_init L [(''currency'', VNone)] = Inr \<lparr> id_Product = None, name = None,
       price = None, currency = None, image = None, url_Product = None, description = None,
       brand = None \<rparr>"
    by (rule Product_currency_None [THEN conjunct2])
  show "map_of (Product_dict p) ''currency'' = Some (opt_val VStr (currency p))"
    by (simp add: Product_dict_def)
qed

theorem dict_keys_witness:
  "map_of (UserContext_dict
       (\<lparr> first_name = Some ''Ada'', last_name = None, email = None, custom_fields = None \<rparr>
          :: unit UserContext)) ''firstName'' = None
   \<and> Product_init (no_lax :: unit lax_mode) [(''id'', VNone)] = Product_init no_lax []
   \<and> map fst (Product_dict
       (\<lparr> id_Product = None, name = None, price = None, currency = Some ''USD'', image = None,
          url_Product = None, description = None, brand = None \<rparr> :: unit Product))
     = [''id'', ''name'', ''price'', ''currency'', ''image'', ''url'', ''description'', ''brand'']"
proof -
  note t = dict_keys [where k = "''id''" and kw = "[]" and L = "no_lax :: unit lax_mode"
      and p = "\<lparr> id_Product = None, name = None, price = None, currency = Some ''USD'',
                  image = None, url_Product = None, description = None, brand = None \<rparr>"]
  have a: "Product_init (no_lax :: unit lax_mode) [(''id'', VNone)] = Product_init no_lax []"
    using t [THEN conjunct2, THEN conjunct2, THEN conjunct2, THEN conjunct2, THEN conjunct2,
             THEN conjunct1]
    by simp
  have b: "map fst (Product_dict
       (\<lparr> id_Product = None, name = None, price = None, currency = Some ''USD'', image = None,
          url_Product = None, description = None, brand = None \<rparr> :: unit Product))
     = [''id'', ''name'', ''price'', ''currency'', ''image'', ''url'', ''description'', ''brand'']"
    by (rule t [THEN conjunct1])
  have c: "map_of (UserContext_dict
       (\<lparr> first_name = Some ''Ada'', last_name = None, email = None, custom_fields = None \<rparr>
          :: unit UserContext)) ''firstName'' = None"
    by (simp add: UserContext_dict_def)
  show ?thesis using a b c by blast
qed

text \<open>
  C3 as stated fails: the serialized \<open>UserContext\<close> has the key \<^verbatim>\<open>first_name\<close> and no
  key \<^verbatim>\<open>firstName\<close>; a \<open>Product\<close> built with no argument and one built with
  \<^verbatim>\<open>id=None\<close> are the same object, and the name that was never set is present in the
  mapping as \<^verbatim>\<open>None\<close>.
\<close>

theorem dict_ignores_alias_and_unset:
  "map_of (UserContext_dict
       (\<lparr> first_name = Some ''Ada'', last_name = None, email = None, custom_fields = None \<rparr>
          :: unit UserContext)) ''firstName'' = None
   \<and> map_of (UserContext_dict
       (\<lparr> first_name = Some ''Ada'', last_name = None, email = None, custom_fields = None \<rparr>
          :: unit UserContext)) ''first_name'' = Some (VStr ''Ada'')
   \<and> Product_init (no_lax :: unit lax_mode) []
       = Inr \<lparr> id_Product = None, name = None, price = None, currency = Some ''USD'',
               image = None, url_Product = None, description = None, brand = None \<rparr>
   \<and> Product_init (no_lax :: unit lax_mode) [(''id'', VNone)]
       = Inr \<lparr> id_Product = None, name = None, price = None, currency = Some ''USD'',
               image = None, url_Product = None, description = None, brand = None \<rparr>
   \<and> map_of (Product_dict
       (\<lparr> id_Product = None, name = None, price = None, currency = Some ''USD'', image = None,
          url_Product = None, description = None, brand = None \<rparr> :: unit Product)) ''name''
       = Some VNone"
  by (simp add: UserContext_dict_def Product_dict_def Product_init_def field_default_def
        opt_val_def)

subsection \<open>Decoding a response\<close>

lemma errs_ap: "errs (ap rf ra) = errs rf @ errs ra"
  by (cases rf; cases ra) (simp_all add: ap_def)

lemma isl_ap: "isl (ap rf ra) \<longleftrightarrow> isl rf \<or> isl ra"
  by (cases rf; cases ra) (simp_all add: ap_def)

lemma raise_validation_isl:
  "isl r \<Longrightarrow> raise_validation r = Inl (PydanticValidationError (errs r))"
  by (cases r) (simp_all add: raise_validation_def)

lemma raise_validation_kind:
  "raise_validation r = Inl e \<Longrightarrow> \<exists>es. e = PydanticValidationError es"
  by (cases r) (auto simp add: raise_validation_def)


lemma has_err_base:
  "map_of kw k = None \<Longrightarrow>
   isl (field_required kw k f) \<and> ([Key k], ''missing'') \<in> set (errs (field_required kw k f))"
  by (simp add: field_required_def)

lemma has_err_ap1:
  "isl rf \<and> x \<in> set (errs rf) \<Longrightarrow> isl (ap rf ra) \<and> x \<in> set (errs (ap rf ra))"
  by (simp add: isl_ap errs_ap)

lemma has_err_ap2:
  "isl ra \<and> x \<in> set (errs ra) \<Longrightarrow> isl (ap rf ra) \<and> x \<in> set (errs (ap rf ra))"
  by (simp add: isl_ap errs_ap)

lemma raise_has_err:
  "isl r \<and> x \<in> set (errs r) \<Longrightarrow>
   \<exists>es. raise_validation r = Inl (PydanticValidationError es) \<and> x \<in> set es"
  by (simp add: raise_validation_isl)

lemma Campaign_missing:
  assumes "k \<in> set Campaign_keys" and "map_of kw k = None"
  shows "\<exists>es. Campaign_init kw = Inl (PydanticValidationError es)
            \<and> ([Key k], ''missing'') \<in> set es"
proof -
  note b = has_err_base [OF assms(2)]
  have "k = ''campaignId'' \<or> k = ''templates'' \<or> k = ''previewUrls''
        \<or> k = ''cost'' \<or> k = ''metadata''"
    using assms(1) by (simp add: Campaign_keys_def)
  then show ?thesis
  proof (elim disjE)
    assume 1: "k = ''campaignId''"
    show ?thesis unfolding Campaign_init_def 1
      by (rule raise_has_err, rule has_err_ap1, rule has_err_ap1, rule has_err_ap1, rule has_err_ap1, rule has_err_ap2, rule b [unfolded 1])
  next
    assume 2: "k = ''templates''"
    show ?thesis unfolding Campaign_init_def 2
      by (rule raise_has_err, rule has_err_ap1, rule has_err_ap1, rule has_err_ap1, rule has_err_ap2, rule b [unfolded 2])
  next
    assume 3: "k = ''previewUrls''"
    show ?thesis unfolding Campaign_init_def 3
      by (rule raise_has_err, rule has_err_ap1, rule has_err_ap1, rule has_err_ap2, rule b [unfolded 3])
  next
    assume 4: "k = ''cost''"
    show ?thesis unfolding Campaign_init_def 4
      by (rule raise_has_err, rule has_err_ap1, rule has_err_ap2, rule b [unfolded 4])
  next
    assume 5: "k = ''metadata''"
    show ?thesis unfolding Campaign_init_def 5
      by (rule raise_has_err, rule has_err_ap2, rule b [unfolded 5])
  qed
qed


lemma Template_fields_missing:
  assumes "k \<in> set Template_keys" and "map_of kw k = None"
  shows "isl (Template_fields kw) \<and> ([Key k], ''missing'') \<in> set (errs (Template_fields kw))"
proof -
  note b = has_err_base [OF assms(2)]
  have "k = ''id'' \<or> k = ''variationName'' \<or> k = ''ampUrl''
        \<or> k = ''fallbackUrl'' \<or> k = ''content'' \<or> k = ''mergeTags''"
    using assms(1) by (simp add: Template_keys_def)
  then show ?thesis
  proof (elim disjE)
    assume 1: "k = ''id''"
    show ?thesis unfolding Template_fields_def 1
      by (rule has_err_ap1, rule has_err_ap1, rule has_err_ap1, rule has_err_ap1, rule has_err_ap1, rule has_err_ap2, rule b [unfolded 1])
  next
    assume 2: "k = ''variationName''"
    show ?thesis unfolding Template_fields_def 2
      by (rule has_err_ap1, rule has_err_ap1, rule has_err_ap1, rule has_err_ap1, rule has_err_ap2, rule b [unfolded 2])
  next
    assume 3: "k = ''ampUrl''"
    show ?thesis unfolding Template_fields_def 3
      by (rule has_err_ap1, rule has_err_ap1, rule has_err_ap1, rule has_err_ap2, rule b [unfolded 3])
  next
    assume 4: "k = ''fallbackUrl''"
    show ?thesis unfolding Template_fields_def 4
      by (rule has_err_ap1, rule has_err_ap1, rule has_err_ap2, rule b [unfolded 4])
  next
    assume 5: "k = ''content''"
    show ?thesis unfolding Template_fields_def 5
      by (rule has_err_ap1, rule has_err_ap2, rule b [unfolded 5])
  next
    assume 6: "k = ''mergeTags''"
    show ?thesis unfolding Template_fields_def 6
      by (rule has_err_ap2, rule b [unfolded 6])
  qed
qed

lemma Template_missing:
  assumes "k \<in> set Template_keys" and "map_of kw k = None"
  shows "\<exists>es. Template_init kw = Inl (PydanticValidationError es)
            \<and> ([Key k], ''missing'') \<in> set es"
  unfolding Template_init_def
  by (rule raise_has_err, rule Template_fields_missing [OF assms])

lemma Campaign_reads_its_keys:
  assumes "\<forall>k \<in> set Campaign_keys. map_of kw k = map_of kw' k"
  shows "Campaign_init kw = Campaign_init kw'"
proof -
  have "map_of kw ''campaignId'' = map_of kw' ''campaignId''"
       "map_of kw ''templates'' = map_of kw' ''templates''"
       "map_of kw ''previewUrls'' = map_of kw' ''previewUrls''"
       "map_of kw ''cost'' = map_of kw' ''cost''"
       "map_of kw ''metadata'' = map_of kw' ''metadata''"
    using assms by (simp_all add: Campaign_keys_def)
  then show ?thesis
    by (simp add: Campaign_init_def field_required_def)
qed

lemma Template_fields_reads_its_keys:
  assumes "\<forall>k \<in> set Template_keys. map_of kw k = map_of kw' k"
  shows "Template_fields kw = Template_fields kw'"
proof -
  have "map_of kw ''id'' = map_of kw' ''id''"
       "map_of kw ''variationName'' = map_of kw' ''variationName''"
       "map_of kw ''ampUrl'' = map_of kw' ''ampUrl''"
       "map_of kw ''fallbackUrl'' = map_of kw' ''fallbackUrl''"
       "map_of kw ''content'' = map_of kw' ''content''"
       "map_of kw ''mergeTags'' = map_of kw' ''mergeTags''"
    using assms by (simp_all add: Template_keys_def)
  then show ?thesis
    by (simp add: Template_fields_def field_required_def)
qed

lemma Template_reads_its_keys:
  assumes "\<forall>k \<in> set Template_keys. map_of kw k = map_of kw' k"
  shows "Template_init kw = Template_init kw'"
  by (simp add: Template_init_def Template_fields_reads_its_keys [OF assms])

lemma errs_collect: "errs (collect rs) = concat (map errs rs)"
proof (induction rs)
  case Nil
  then show ?case by simp
next
  case (Cons r rs)
  then show ?case by (cases r; cases "collect rs") simp_all
qed

lemma isl_collect: "isl (collect rs) \<longleftrightarrow> (\<exists>r \<in> set rs. isl r)"
proof (induction rs)
  case Nil
  then show ?case by simp
next
  case (Cons r rs)
  then show ?case by (cases r; cases "collect rs") auto
qed

lemma has_err_collect:
  assumes "i < length rs" and "isl (rs ! i) \<and> x \<in> set (errs (rs ! i))"
  shows "isl (collect rs) \<and> x \<in> set (errs (collect rs))"
proof -
  have "rs ! i \<in> set rs" using assms(1) by simp
  then show ?thesis using assms(2) by (auto simp add: isl_collect errs_collect)
qed

lemma has_err_under:
  "isl r \<and> (loc, t) \<in> set (errs r) \<Longrightarrow>
   isl (under l r) \<and> (l # loc, t) \<in> set (errs (under l r))"
  by (cases r) (auto simp add: under_def)

lemma has_err_list:
  assumes "i < length xs" and "isl (f (xs ! i)) \<and> (loc, t) \<in> set (errs (f (xs ! i)))"
  shows "isl (validate_list f (VList xs))
       \<and> (Idx i # loc, t) \<in> set (errs (validate_list f (VList xs)))"
proof -
  let ?rs = "map (\<lambda>(i, x). under (Idx i) (f x)) (zip [0..<length xs] xs)"
  have l: "i < length ?rs" using assms(1) by simp
  have "?rs ! i = under (Idx i) (f (xs ! i))" using assms(1) by simp
  then have "isl (?rs ! i) \<and> (Idx i # loc, t) \<in> set (errs (?rs ! i))"
    using has_err_under [OF assms(2), of "Idx i"] by simp
  then have "isl (collect ?rs) \<and> (Idx i # loc, t) \<in> set (errs (collect ?rs))"
    by (rule has_err_collect [OF l])
  then show ?thesis by (simp add: validate_list_def)
qed

lemma has_err_field_required:
  assumes "map_of kw k = Some v" and "isl (f v) \<and> (loc, t) \<in> set (errs (f v))"
  shows "isl (field_required kw k f) \<and> (Key k # loc, t) \<in> set (errs (field_required kw k f))"
  using has_err_under [OF assms(2), of "Key k"] by (simp add: field_required_def assms(1))

lemma Campaign_template_missing:
  assumes ts: "map_of kw ''templates'' = Some (VList ts)"
      and i: "i < length ts" and t: "ts ! i = VDict tkw"
      and k: "k \<in> set Template_keys" and m: "map_of tkw k = None"
  shows "\<exists>es. Campaign_init kw = Inl (PydanticValidationError es)
            \<and> ([Key ''templates'', Idx i, Key k], ''missing'') \<in> set es"
proof -
  have "isl (validate_Template (ts ! i))
          \<and> ([Key k], ''missing'') \<in> set (errs (validate_Template (ts ! i)))"
    using Template_fields_missing [OF k m] by (simp add: t validate_Template_def)
  then have "isl (validate_list validate_Template (VList ts))
          \<and> ([Idx i, Key k], ''missing'') \<in> set (errs (validate_list validate_Template (VList ts)))"
    by (rule has_err_list [OF i])
  then have f: "isl (field_required kw ''templates'' (validate_list validate_Template))
          \<and> ([Key ''templates'', Idx i, Key k], ''missing'')
              \<in> set (errs (field_required kw ''templates'' (validate_list validate_Template)))"
    by (rule has_err_field_required [OF ts])
  show ?thesis unfolding Campaign_init_def
    by (rule raise_has_err, rule has_err_ap1, rule has_err_ap1, rule has_err_ap1,
        rule has_err_ap2, rule f)
qed

lemma validate_list_same:
  assumes "map f xs = map f xs'"
  shows "validate_list f (VList xs) = validate_list f (VList xs')"
proof -
  have l: "length xs = length xs'" using assms by (rule map_eq_imp_length_eq)
  have "map (\<lambda>(i, x). under (Idx i) (f x)) (zip is ys)
        = map (\<lambda>(i, r). under (Idx i) r) (zip is (map f ys))" for "is" ys
    by (simp add: zip_map2 case_prod_unfold)
  then show ?thesis
    using assms l by (simp add: validate_list_def)
qed

lemma Campaign_template_extra_key:
  assumes "x \<notin> set Template_keys"
  shows "Campaign_init ((''templates'', VList (ts1 @ VDict ((x, v) # tkw) # ts2)) # kw)
       = Campaign_init ((''templates'', VList (ts1 @ VDict tkw # ts2)) # kw)"
proof -
  have "\<forall>k \<in> set Template_keys. map_of ((x, v) # tkw) k = map_of tkw k"
    using assms by auto
  then have "validate_Template (VDict ((x, v) # tkw)) = validate_Template (VDict tkw)"
    by (simp add: validate_Template_def Template_fields_reads_its_keys)
  then have "map validate_Template (ts1 @ VDict ((x, v) # tkw) # ts2)
           = map validate_Template (ts1 @ VDict tkw # ts2)"
    by simp
  then have "validate_list validate_Template (VList (ts1 @ VDict ((x, v) # tkw) # ts2))
           = validate_list validate_Template (VList (ts1 @ VDict tkw # ts2))"
    by (rule validate_list_same)
  then show ?thesis
    by (simp add: Campaign_init_def field_required_def)
qed

lemma classify_kind: "classify response \<noteq> Inl (PydanticValidationError es)"
  by (simp add: classify_def request_failed_def split: sum.splits pyval.splits option.splits)

lemma request_kind: "fst (request tr c m p j) \<noteq> Inl (PydanticValidationError es)"
  by (simp add: fst_request classify_kind request_failed_def split: sum.splits)

lemma classify_success:
  "status_code response < 400 \<Longrightarrow> json_body response = Inr v \<Longrightarrow> classify response = Inr v"
  by (simp add: classify_def)

lemma generate_decodes:
  assumes "truthy pu \<or> truthy ps"
      and "\<forall>req. tr req = Inr response"
      and "status_code response < 400"
      and "json_body response = Inr (VDict kw)"
  shows "fst (generate tr c pu ps cc uc bc go) = Campaign_init kw"
proof -
  have "fst (request tr c ''POST'' ''/api/v1/generate''
               (Some (VDict (generate_payload pu ps cc uc bc go)))) = Inr (VDict kw)"
    by (simp add: fst_request assms(2) classify_success [OF assms(3) assms(4)])
  then show ?thesis
    using assms(1) by (auto simp add: generate_def split: prod.splits)
qed

text \<open>
  C6. Decoding a payload into \<open>Campaign\<close> or \<open>Template\<close> fails when a required key is
  absent, with a \<^verbatim>\<open>pydantic.ValidationError\<close> holding an entry of type \<^verbatim>\<open>missing\<close>
  located at that key; a template is decoded as an item of the \<^verbatim>\<open>templates\<close> list of
  a campaign, and a required key absent from the item at index \<open>i\<close> fails the decode of
  the campaign with the entry located at \<^verbatim>\<open>templates\<close>, \<open>i\<close> and the key. The decode
  reads the declared keys only: two payloads that agree on them decode alike, so extra
  keys are ignored, in the campaign and in each of its templates. The error of a failed
  decode is a \<^verbatim>\<open>pydantic.ValidationError\<close>, which is not an \<open>AMPEmailError\<close> and which
  the request dispatch never raises, whatever the transport does. \<open>generate\<close> returns
  exactly this decode of the JSON object the server answered with.
\<close>

theorem response_decoding:
  "(k \<in> set Campaign_keys \<and> map_of kw k = None
      \<longrightarrow> (\<exists>es. Campaign_init kw = Inl (PydanticValidationError es)
                 \<and> ([Key k], ''missing'') \<in> set es))
 \<and> (k \<in> set Template_keys \<and> map_of kw k = None
      \<longrightarrow> (\<exists>es. Template_init kw = Inl (PydanticValidationError es)
                 \<and> ([Key k], ''missing'') \<in> set es))
 \<and> ((\<forall>k \<in> set Campaign_keys. map_of kw k = map_of kw' k)
      \<longrightarrow> Campaign_init kw = Campaign_init kw')
 \<and> ((\<forall>k \<in> set Template_keys. map_of kw k = map_of kw' k)
      \<longrightarrow> Template_init kw = Template_init kw')
 \<and> (Campaign_init kw = Inl e \<or> Template_init kw = Inl e
      \<longrightarrow> (\<exists>es. e = PydanticValidationError es) \<and> \<not> isinstance_AMPEmailError e
          \<and> fst (request tr c m p j) \<noteq> Inl e)
 \<and> ((truthy pu \<or> truthy ps) \<and> (\<forall>req. tr' req = Inr response)
        \<and> status_code response < 400 \<and> json_body response = Inr (VDict kw)
      \<longrightarrow> fst (generate tr' c pu ps cc uc bc go) = Campaign_init kw)
 \<and> (map_of kw ''templates'' = Some (VList ts) \<and> i < length ts \<and> ts ! i = VDict tkw
        \<and> k \<in> set Template_keys \<and> map_of tkw k = None
      \<longrightarrow> (\<exists>es. Campaign_init kw = Inl (PydanticValidationError es)
                 \<and> ([Key ''templates'', Idx i, Key k], ''missing'') \<in> set es))
 \<and> (x \<notin> set Template_keys
      \<longrightarrow> Campaign_init ((''templates'', VList (ts1 @ VDict ((x, v) # tkw) # ts2)) # kw)
            = Campaign_init ((''templates'', VList (ts1 @ VDict tkw # ts2)) # kw))"
proof (intro conjI impI)
  show "\<exists>es. Campaign_init kw = Inl (PydanticValidationError es)
            \<and> ([Key k], ''missing'') \<in> set es"
    if "k \<in> set Campaign_keys \<and> map_of kw k = None"
    using that by (intro Campaign_missing) blast+
  show "\<exists>es. Template_init kw = Inl (PydanticValidationError es)
            \<and> ([Key k], ''missing'') \<in> set es"
    if "k \<in> set Template_keys \<and> map_of kw k = None"
    using that by (intro Template_missing) blast+
  show "Campaign_init kw = Campaign_init kw'"
    if "\<forall>k \<in> set Campaign_keys. map_of kw k = map_of kw' k"
    using that by (rule Campaign_reads_its_keys)
  show "Template_init kw = Template_init kw'"
    if "\<forall>k \<in> set Template_keys. map_of kw k = map_of kw' k"
    using that by (rule Template_reads_its_keys)
  assume d: "Campaign_init kw = Inl e \<or> Template_init kw = Inl e"
  then show k: "\<exists>es. e = PydanticValidationError es"
    by (auto simp add: Campaign_init_def Template_init_def dest: raise_validation_kind)
  then show "\<not> isinstance_AMPEmailError e"
    by auto
  from k show "fst (request tr c m p j) \<noteq> Inl e"
    by (auto simp add: request_kind)
next
  assume "(truthy pu \<or> truthy ps) \<and> (\<forall>req. tr' req = Inr response)
        \<and> status_code response < 400 \<and> json_body response = Inr (VDict kw)"
  then show "fst (generate tr' c pu ps cc uc bc go) = Campaign_init kw"
    by (intro generate_decodes) blast+
next
  assume "map_of kw ''templates'' = Some (VList ts) \<and> i < length ts \<and> ts ! i = VDict tkw
        \<and> k \<in> set Template_keys \<and> map_of tkw k = None"
  then show "\<exists>es. Campaign_init kw = Inl (PydanticValidationError es)
                 \<and> ([Key ''templates'', Idx i, Key k], ''missing'') \<in> set es"
    by (intro Campaign_template_missing) blast+
next
  assume "x \<notin> set Template_keys"
  then show "Campaign_init ((''templates'', VList (ts1 @ VDict ((x, v) # tkw) # ts2)) # kw)
            = Campaign_init ((''templates'', VList (ts1 @ VDict tkw # ts2)) # kw)"
    by (rule Campaign_template_extra_key)
qed

theorem response_decoding_witness:
  "(\<exists>es. Campaign_init
          ([(''templates'', VList []), (''previewUrls'', VList []), (''cost'', VDict []),
            (''metadata'', VDict [])] :: unit pydict) = Inl (PydanticValidationError es)
        \<and> ([Key ''campaignId''], ''missing'') \<in> set es)
   \<and> Campaign_init
        ([(''templates'', VList []), (''previewUrls'', VList []), (''cost'', VDict []),
          (''metadata'', VDict [])] :: unit pydict)
       = Inl (PydanticValidationError [([Key ''campaignId''], ''missing'')])
   \<and> Campaign_init
        ([(''server_time'', VInt 7), (''campaignId'', VStr ''c1''), (''templates'', VList []),
          (''previewUrls'', VList []), (''cost'', VDict []), (''metadata'', VDict [])]
           :: unit pydict)
       = Campaign_init
          [(''campaignId'', VStr ''c1''), (''templates'', VList []),
           (''previewUrls'', VList []), (''cost'', VDict []), (''metadata'', VDict [])]
   \<and> Campaign_init
        ([(''campaignId'', VStr ''c1''), (''templates'', VList []),
          (''previewUrls'', VList []), (''cost'', VDict []), (''metadata'', VDict [])]
           :: unit pydict)
       = Inr \<lparr> campaign_id = ''c1'', templates = [], preview_urls = [], cost = [],
               metadata = [] \<rparr>
   \<and> fst (generate
          (mock_transport \<lparr> status_code = 200, content = ''{...}'',
             json_body = Inr (VDict [(''templates'', VList []), (''previewUrls'', VList []),
                                     (''cost'', VDict []), (''metadata'', VDict [])]) \<rparr>)
          client0 (Some [''https://shop/p1'']) None None None None None)
       = Inl (PydanticValidationError [([Key ''campaignId''], ''missing'')])
   \<and> (\<exists>es. Campaign_init
          ((''templates'', VList [VDict [(''id'', VStr ''t1''), (''ampUrl'', VStr ''a''),
              (''fallbackUrl'', VStr ''f''), (''content'', VDict []),
              (''mergeTags'', VList [VStr ''first_name''])]])
           # [(''campaignId'', VStr ''c1''), (''previewUrls'', VList []), (''cost'', VDict []),
              (''metadata'', VDict [])] :: unit pydict)
          = Inl (PydanticValidationError es)
        \<and> ([Key ''templates'', Idx 0, Key ''variationName''], ''missing'') \<in> set es)
   \<and> Campaign_init
          ((''templates'', VList [VDict [(''id'', VStr ''t1''), (''ampUrl'', VStr ''a''),
              (''fallbackUrl'', VStr ''f''), (''content'', VDict []),
              (''mergeTags'', VList [VStr ''first_name''])]])
           # [(''campaignId'', VStr ''c1''), (''previewUrls'', VList []), (''cost'', VDict []),
              (''metadata'', VDict [])] :: unit pydict)
       = Inl (PydanticValidationError
                [([Key ''templates'', Idx 0, Key ''variationName''], ''missing'')])
   \<and> Campaign_init
          ((''templates'', VList [VDict ((''score'', VInt 1) # [(''variationName'', VStr ''A''),
              (''id'', VStr ''t1''), (''ampUrl'', VStr ''a''),
              (''fallbackUrl'', VStr ''f''), (''content'', VDict []),
              (''mergeTags'', VList [VStr ''first_name''])])])
           # [(''campaignId'', VStr ''c1''), (''previewUrls'', VList []), (''cost'', VDict []),
              (''metadata'', VDict [])] :: unit pydict)
       = Inr \<lparr> campaign_id = ''c1'',
               templates = [\<lparr> id_Template = ''t1'', variation_name = ''A'', amp_url = ''a'',
                              fallback_url = ''f'', content_Template = [],
                              merge_tags = [''first_name''] \<rparr>],
               preview_urls = [], cost = [], metadata = [] \<rparr>"
proof -
  let ?missing = "[(''templates'', VList []), (''previewUrls'', VList []), (''cost'', VDict []),
            (''metadata'', VDict [])] :: unit pydict"
  let ?full = "[(''campaignId'', VStr ''c1''), (''templates'', VList []),
          (''previewUrls'', VList []), (''cost'', VDict []), (''metadata'', VDict [])]
           :: unit pydict"
  have h1: "''campaignId'' \<in> set Campaign_keys \<and> map_of ?missing ''campaignId'' = None"
    by (simp add: Campaign_keys_def)
  have h2: "\<forall>k \<in> set Campaign_keys. map_of ((''server_time'', VInt 7) # ?full) k = map_of ?full k"
    by (simp add: Campaign_keys_def)
  have a: "\<exists>es. Campaign_init ?missing = Inl (PydanticValidationError es)
        \<and> ([Key ''campaignId''], ''missing'') \<in> set es"
    using response_decoding [where k = "''campaignId''" and kw = ?missing, THEN conjunct1] h1
    by blast
  have b: "Campaign_init ((''server_time'', VInt 7) # ?full) = Campaign_init ?full"
    using response_decoding [where kw = "(''server_time'', VInt 7) # ?full" and kw' = ?full,
            THEN conjunct2, THEN conjunct2, THEN conjunct1] h2
    by blast
  have c: "Campaign_init ?missing = Inl (PydanticValidationError [([Key ''campaignId''], ''missing'')])"
    by (simp add: Campaign_init_def field_required_def validate_list_def validate_dict_any_def
          ap_def raise_validation_def)
  have d: "Campaign_init ?full
       = Inr \<lparr> campaign_id = ''c1'', templates = [], preview_urls = [], cost = [],
               metadata = [] \<rparr>"
    by (simp add: Campaign_init_def field_required_def validate_list_def validate_dict_any_def
          validate_str_def)
  let ?response = "\<lparr> status_code = 200, content = ''{...}'',
                      json_body = Inr (VDict ?missing) \<rparr>"
  have h3: "(truthy (Some [''https://shop/p1'']) \<or> truthy (None :: unit Product list option))
        \<and> (\<forall>req. mock_transport ?response req = Inr ?response)
        \<and> status_code ?response < 400
        \<and> json_body ?response = Inr (VDict ?missing)"
    by (simp add: truthy_def mock_transport_def)
  have e: "fst (generate (mock_transport ?response)
          client0 (Some [''https://shop/p1'']) None None None None None)
       = Campaign_init ?missing"
    using response_decoding [where kw = ?missing and c = client0
            and pu = "Some [''https://shop/p1'']" and ps = None
            and tr' = "mock_transport ?response" and response = ?response,
            THEN conjunct2, THEN conjunct2, THEN conjunct2, THEN conjunct2, THEN conjunct2,
            THEN conjunct1] h3
    by blast
  let ?bad = "[(''id'', VStr ''t1''), (''ampUrl'', VStr ''a''),
              (''fallbackUrl'', VStr ''f''), (''content'', VDict []),
              (''mergeTags'', VList [VStr ''first_name''])] :: unit pydict"
  let ?good = "(''variationName'', VStr ''A'') # ?bad"
  let ?rest = "[(''campaignId'', VStr ''c1''), (''previewUrls'', VList []), (''cost'', VDict []),
              (''metadata'', VDict [])] :: unit pydict"
  have h4: "map_of ((''templates'', VList [VDict ?bad]) # ?rest) ''templates''
              = Some (VList [VDict ?bad])
        \<and> 0 < length [VDict ?bad] \<and> [VDict ?bad] ! 0 = VDict ?bad
        \<and> ''variationName'' \<in> set Template_keys \<and> map_of ?bad ''variationName'' = None"
    by (simp add: Template_keys_def)
  have f: "\<exists>es. Campaign_init ((''templates'', VList [VDict ?bad]) # ?rest)
              = Inl (PydanticValidationError es)
        \<and> ([Key ''templates'', Idx 0, Key ''variationName''], ''missing'') \<in> set es"
    using response_decoding [where kw = "(''templates'', VList [VDict ?bad]) # ?rest"
            and ts = "[VDict ?bad]" and i = 0 and tkw = ?bad and k = "''variationName''",
            THEN conjunct2, THEN conjunct2, THEN conjunct2, THEN conjunct2, THEN conjunct2,
            THEN conjunct2, THEN conjunct1] h4
    by blast
  have g: "Campaign_init ((''templates'', VList [VDict ?bad]) # ?rest)
       = Inl (PydanticValidationError
                [([Key ''templates'', Idx 0, Key ''variationName''], ''missing'')])"
    by (simp add: Campaign_init_def field_required_def validate_list_def validate_dict_any_def
          validate_str_def validate_Template_def Template_fields_def ap_def under_def
          raise_validation_def)
  have h5: "''score'' \<notin> set Template_keys"
    by (simp add: Template_keys_def)
  have i: "Campaign_init ((''templates'', VList ([] @ VDict ((''score'', VInt 1) # ?good) # [])) # ?rest)
         = Campaign_init ((''templates'', VList ([] @ VDict ?good # [])) # ?rest)"
    using response_decoding [where x = "''score''" and v = "VInt 1" and tkw = ?good
            and ?ts1.0 = "[]" and ?ts2.0 = "[]" and kw = ?rest,
            THEN conjunct2, THEN conjunct2, THEN conjunct2, THEN conjunct2, THEN conjunct2,
            THEN conjunct2, THEN conjunct2] h5
    by blast
  have j: "Campaign_init ((''templates'', VList [VDict ?good]) # ?rest)
       = Inr \<lparr> campaign_id = ''c1'',
               templates = [\<lparr> id_Template = ''t1'', variation_name = ''A'', amp_url = ''a'',
                              fallback_url = ''f'', content_Template = [],
                              merge_tags = [''first_name''] \<rparr>],
               preview_urls = [], cost = [], metadata = [] \<rparr>"
    by (simp add: Campaign_init_def field_required_def validate_list_def validate_dict_any_def
          validate_str_def validate_Template_def Template_fields_def)
  show ?thesis using a b c d e f g i j by simp
qed

subsection \<open>Enumerated fields\<close>

lemma validate_enum_reject:
  "\<forall>m. v \<noteq> VStr (val m) \<Longrightarrow> validate_enum members val v = Inl [([], ''enum'')]"
proof (cases v)
  case (VStr s)
  assume a: "\<forall>m. v \<noteq> VStr (val m)"
  have "find (\<lambda>m. val m = s) members = None"
  proof (cases "find (\<lambda>m. val m = s) members")
    case None
    then show ?thesis .
  next
    case (Some m)
    then have "val m = s" by (auto simp add: find_Some_iff)
    with a VStr show ?thesis by auto
  qed
  with VStr show ?thesis by (simp add: validate_enum_def)
qed (simp_all add: validate_enum_def)

lemma has_err_enum_required:
  assumes "map_of kw k = Some v" and "\<forall>m. v \<noteq> VStr (val m)"
  shows "isl (field_required kw k (validate_enum members val))
       \<and> ([Key k], ''enum'') \<in> set (errs (field_required kw k (validate_enum members val)))"
  by (simp add: field_required_def assms(1) validate_enum_reject [OF assms(2)] under_def)

lemma validate_optional_reject:
  "v \<noteq> VNone \<Longrightarrow> f v = Inl es \<Longrightarrow> validate_optional f v = Inl es"
  by (cases v) (simp_all add: validate_optional_def)

lemma has_err_enum_optional:
  assumes "map_of kw k = Some v" and "v \<noteq> VNone" and "\<forall>m. v \<noteq> VStr (val m)"
  shows "isl (field_default kw k None (validate_optional (validate_enum members val)))
       \<and> ([Key k], ''enum'')
           \<in> set (errs (field_default kw k None (validate_optional (validate_enum members val))))"
proof -
  have "validate_enum members val v = Inl [([], ''enum'')]"
    by (rule validate_enum_reject [OF assms(3)])
  then have "validate_optional (validate_enum members val) v = Inl [([], ''enum'')]"
    using assms(2) by (intro validate_optional_reject)
  then show ?thesis
    by (simp add: field_default_def assms(1) under_def)
qed

text \<open>
  C8. The constructor of \<open>CampaignContext\<close>, a function of its keyword arguments alone
  (no client and no transport takes part), fails with a \<^verbatim>\<open>pydantic.ValidationError\<close>
  located at the field when \<^verbatim>\<open>type\<close> or \<^verbatim>\<open>goal\<close> is given a value that is not one of
  the declared ones, and when \<^verbatim>\<open>urgency\<close>, which is optional, is given a value that is
  neither \<^verbatim>\<open>None\<close> nor a declared one. Every declared value is accepted.
\<close>

theorem enum_fields_validated:
  "(map_of kw ''type'' = Some v \<and> (\<forall>t. v \<noteq> VStr (CampaignType_value t))
      \<longrightarrow> (\<exists>es. CampaignContext_init L kw = Inl (PydanticValidationError es)
                 \<and> ([Key ''type''], ''enum'') \<in> set es))
 \<and> (map_of kw ''goal'' = Some v \<and> (\<forall>g. v \<noteq> VStr (CampaignGoal_value g))
      \<longrightarrow> (\<exists>es. CampaignContext_init L kw = Inl (PydanticValidationError es)
                 \<and> ([Key ''goal''], ''enum'') \<in> set es))
 \<and> (map_of kw ''urgency'' = Some v \<and> v \<noteq> VNone \<and> (\<forall>u. v \<noteq> VStr (Urgency_value u))
      \<longrightarrow> (\<exists>es. CampaignContext_init L kw = Inl (PydanticValidationError es)
                 \<and> ([Key ''urgency''], ''enum'') \<in> set es))
 \<and> CampaignContext_init L [(''type'', VStr (CampaignType_value t)),
                            (''goal'', VStr (CampaignGoal_value g))]
      = Inr \<lparr> type = t, goal = g, urgency = None, discount = None \<rparr>"
proof (intro conjI impI)
  assume "map_of kw ''type'' = Some v \<and> (\<forall>t. v \<noteq> VStr (CampaignType_value t))"
  then have 1: "map_of kw ''type'' = Some v" and 2: "\<forall>t. v \<noteq> VStr (CampaignType_value t)"
    by blast+
  show "\<exists>es. CampaignContext_init L kw = Inl (PydanticValidationError es)
                 \<and> ([Key ''type''], ''enum'') \<in> set es"
    unfolding CampaignContext_init_def
    by (rule raise_has_err, rule has_err_ap1, rule has_err_ap1, rule has_err_ap1,
        rule has_err_ap2, rule has_err_enum_required [OF 1 2])
next
  assume "map_of kw ''goal'' = Some v \<and> (\<forall>g. v \<noteq> VStr (CampaignGoal_value g))"
  then have 1: "map_of kw ''goal'' = Some v" and 2: "\<forall>g. v \<noteq> VStr (CampaignGoal_value g)"
    by blast+
  show "\<exists>es. CampaignContext_init L kw = Inl (PydanticValidationError es)
                 \<and> ([Key ''goal''], ''enum'') \<in> set es"
    unfolding CampaignContext_init_def
    by (rule raise_has_err, rule has_err_ap1, rule has_err_ap1,
        rule has_err_ap2, rule has_err_enum_required [OF 1 2])
next
  assume "map_of kw ''urgency'' = Some v \<and> v \<noteq> VNone \<and> (\<forall>u. v \<noteq> VStr (Urgency_value u))"
  then have 1: "map_of kw ''urgency'' = Some v" and 2: "v \<noteq> VNone"
      and 3: "\<forall>u. v \<noteq> VStr (Urgency_value u)"
    by blast+
  show "\<exists>es. CampaignContext_init L kw = Inl (PydanticValidationError es)
                 \<and> ([Key ''urgency''], ''enum'') \<in> set es"
    unfolding CampaignContext_init_def
    by (rule raise_has_err, rule has_err_ap1,
        rule has_err_ap2, rule has_err_enum_optional [OF 1 2 3])
next
  show "CampaignContext_init L [(''type'', VStr (CampaignType_value t)),
                            (''goal'', VStr (CampaignGoal_value g))]
      = Inr \<lparr> type = t, goal = g, urgency = None, discount = None \<rparr>"
    by (simp add: CampaignContext_init_def field_required_def field_default_def)
qed

theorem enum_fields_validated_witness:
  "(\<exists>es. CampaignContext_init (no_lax :: unit lax_mode)
            [(''type'', VStr ''bogus''), (''goal'', VStr ''conversion'')]
          = Inl (PydanticValidationError es) \<and> ([Key ''type''], ''enum'') \<in> set es)
   \<and> CampaignContext_init (no_lax :: unit lax_mode)
        [(''type'', VStr ''bogus''), (''goal'', VStr ''conversion'')]
       = Inl (PydanticValidationError [([Key ''type''], ''enum'')])
   \<and> CampaignContext_init (no_lax :: unit lax_mode)
        [(''type'', VStr ''promotional''), (''goal'', VStr ''conversion'')]
       = Inr \<lparr> type = PROMOTIONAL, goal = CONVERSION, urgency = None, discount = None \<rparr>"
proof -
  let ?kw = "[(''type'', VStr ''bogus''), (''goal'', VStr ''conversion'')] :: unit pydict"
  have n: "VStr ''bogus'' \<noteq> (VStr (CampaignType_value t) :: unit pyval)" for t
    by (cases t) simp_all
  have h: "map_of ?kw ''type'' = Some (VStr ''bogus'')
             \<and> (\<forall>t. (VStr ''bogus'' :: unit pyval) \<noteq> VStr (CampaignType_value t))"
    using n by simp
  have a: "\<exists>es. CampaignContext_init (no_lax :: unit lax_mode) ?kw
          = Inl (PydanticValidationError es) \<and> ([Key ''type''], ''enum'') \<in> set es"
    using enum_fields_validated [where kw = ?kw and v = "VStr ''bogus''" and L = no_lax,
            THEN conjunct1] h
    by blast
  have b: "CampaignContext_init (no_lax :: unit lax_mode) ?kw
       = Inl (PydanticValidationError [([Key ''type''], ''enum'')])"
    by (simp add: CampaignContext_init_def field_required_def field_default_def
          validate_enum_def CampaignType_members_def CampaignGoal_members_def under_def ap_def
          raise_validation_def)
  have c: "CampaignContext_init (no_lax :: unit lax_mode)
        [(''type'', VStr ''promotional''), (''goal'', VStr ''conversion'')]
       = Inr \<lparr> type = PROMOTIONAL, goal = CONVERSION, urgency = None, discount = None \<rparr>"
    using enum_fields_validated [where L = "no_lax :: unit lax_mode" and t = PROMOTIONAL
            and g = CONVERSION, THEN conjunct2, THEN conjunct2, THEN conjunct2]
    by simp
  show ?thesis using a b c by blast
qed

end
